theory Spec2Isabelle
  imports Complex_Main "HOL-Library.AList" "HOL-Library.Sublist"
begin

section \<open>The stat.ink exporter of s3si.ts\<close>

text \<open>
  A shallow embedding of \<^verbatim>\<open>src/exporters/stat.ink.ts\<close>: the stat.ink API client
  (\<^verbatim>\<open>StatInkAPI\<close>) and the exporter (\<^verbatim>\<open>StatInkExporter\<close>) that maps a versus
  battle or a Salmon Run session to the body stat.ink expects and posts it.

  Conventions of the embedding.
  \<^item> A JavaScript string is a \<^typ>\<open>string\<close> holding its UTF-8 bytes; equality,
    \<^verbatim>\<open>includes\<close> and \<^verbatim>\<open>replaceAll\<close> on well-formed strings agree with the
    UTF-16 originals. The strings whose length is taken here are ASCII.
  \<^item> A JavaScript number that the code only counts with is an \<^typ>\<open>int\<close>. One that
    is a fraction (a colour component, the danger rate of a session) is the
    \<^typ>\<open>real\<close> number the double stands for, and a product the code computes on it
    is rounded as binary64 rounds it (\<open>dmul\<close> below). Infinity and \<^verbatim>\<open>NaN\<close> have no
    counterpart.
  \<^item> \<^verbatim>\<open>undefined\<close> and \<^verbatim>\<open>null\<close> of an optional field are \<^term>\<open>None\<close>.
  \<^item> Record fields keep the source's names; a name that several records share, or that
    is a common word, carries a prefix naming its record.
  \<^item> \<^verbatim>\<open>async\<close> functions run to completion one after the other; the mutex of
    \<^verbatim>\<open>_getCached\<close> has nothing to exclude and is left out.
\<close>

subsection \<open>Numbers and strings of the JavaScript runtime\<close>

definition hex_digits :: string where
  "hex_digits = ''0123456789abcdef''"

definition digit_char :: "nat \<Rightarrow> char" where
  "digit_char d = hex_digits ! d"

text \<open>The digits of a natural number in radix \<open>b\<close> (2 to 16), most significant first.\<close>

fun to_radix :: "nat \<Rightarrow> nat \<Rightarrow> string" where
  "to_radix b n =
     (if b < 2 \<or> n < b then [digit_char n]
      else to_radix b (n div b) @ [digit_char (n mod b)])"

declare to_radix.simps [simp del]

text \<open>
  \<^verbatim>\<open>Number.prototype.toString(radix)\<close> on an integer (below \<open>10\<^sup>2\<^sup>1\<close>, where JavaScript
  turns to exponents).
\<close>

definition toString_radix :: "nat \<Rightarrow> int \<Rightarrow> string" where
  "toString_radix b i =
     (if i < 0 then CHR ''-'' # to_radix b (nat (- i)) else to_radix b (nat i))"

definition toString :: "int \<Rightarrow> string" where
  "toString i = toString_radix 10 i"

text \<open>\<^verbatim>\<open>String.prototype.padStart\<close> with a one-character filler.\<close>

definition padStart :: "nat \<Rightarrow> char \<Rightarrow> string \<Rightarrow> string" where
  "padStart n c s = replicate (n - length s) c @ s"

text \<open>\<^verbatim>\<open>Math.round\<close>: the nearest integer, a half rounding up.\<close>

definition Math_round :: "real \<Rightarrow> int" where
  "Math_round x = \<lfloor>x + 1 / 2\<rfloor>"

text \<open>
  Double-precision arithmetic. A product of two doubles is the exact product rounded to
  the nearest double, a tie going to the even significand: 53 bits in the binade of the
  value, \<open>2\<^sup>-\<^sup>1\<^sup>0\<^sup>7\<^sup>4\<close> apart below \<open>2\<^sup>-\<^sup>1\<^sup>0\<^sup>2\<^sup>2\<close>. Overflow to Infinity (from \<open>2\<^sup>1\<^sup>0\<^sup>2\<^sup>4\<close>
  on) is not modelled.
\<close>

definition binade :: "real \<Rightarrow> int" where
  "binade x = (if x \<le> 0 then 0 else \<lfloor>log 2 x\<rfloor>)"

definition round_ties_even :: "real \<Rightarrow> int" where
  "round_ties_even z =
     (let f = \<lfloor>z\<rfloor> in
      if z - of_int f < 1 / 2 then f
      else if z - of_int f > 1 / 2 then f + 1
      else if even f then f else f + 1)"

definition double_round :: "real \<Rightarrow> real" where
  "double_round x =
     (if x = 0 then 0
      else let e = max (binade \<bar>x\<bar>) (- 1022); ulp = 2 powi (e - 52)
           in ulp * of_int (round_ties_even (x / ulp)))"

text \<open>\<^verbatim>\<open>x * y\<close> on doubles.\<close>

definition dmul :: "real \<Rightarrow> real \<Rightarrow> real" where
  "dmul x y = double_round (x * y)"

fun index_of :: "'a \<Rightarrow> 'a list \<Rightarrow> nat option" where
  "index_of x [] = None"
| "index_of x (y # ys) =
     (if x = y then Some 0 else map_option Suc (index_of x ys))"

definition digit_value :: "nat \<Rightarrow> char \<Rightarrow> nat option" where
  "digit_value b c =
     (case index_of c hex_digits of
        Some d \<Rightarrow> if d < b then Some d else None
      | None \<Rightarrow> None)"

text \<open>
  Reading a string of digits in radix \<open>b\<close>, for \<^verbatim>\<open>parseInt\<close>: \<open>None\<close> when the string holds
  another character.
\<close>

fun read_digits :: "nat \<Rightarrow> nat \<Rightarrow> string \<Rightarrow> nat option" where
  "read_digits b acc [] = Some acc"
| "read_digits b acc (c # cs) =
     (case digit_value b c of
        None \<Rightarrow> None
      | Some d \<Rightarrow> read_digits b (acc * b + d) cs)"

text \<open>
  \<^verbatim>\<open>parseInt(s)\<close> on the strings that reach it here: an optional sign and the longest
  run of decimal digits; \<open>None\<close> is \<^verbatim>\<open>NaN\<close>.
\<close>

definition is_digit10 :: "char \<Rightarrow> bool" where
  "is_digit10 c = (digit_value 10 c \<noteq> None)"

definition parseInt :: "string \<Rightarrow> int option" where
  "parseInt s =
     (let neg = (case s of c # _ \<Rightarrow> c = CHR ''-'' | [] \<Rightarrow> False);
          signed = (case s of c # _ \<Rightarrow> c = CHR ''-'' \<or> c = CHR ''+'' | [] \<Rightarrow> False);
          ds = takeWhile is_digit10 (if signed then tl s else s)
      in if ds = [] then None
         else map_option (\<lambda>n. if neg then - int n else int n) (read_digits 10 0 ds))"

subsection \<open>Team colours\<close>

record Color =
  color_r :: real
  color_g :: real
  color_b :: real
  color_a :: real

definition float2hex :: "real \<Rightarrow> string" where
  "float2hex i = padStart 2 (CHR ''0'') (toString_radix 16 (Math_round (dmul i 255)))"

definition nums :: "Color \<Rightarrow> real list" where
  "nums color = [color_r color, color_g color, color_b color, color_a color]"

definition mapColor :: "Color \<Rightarrow> string" where
  "mapColor color = concat (map float2hex (nums color))"

text \<open>The \<open>k\<close>-th two-digit channel of a colour string, \<open>k\<close> from 0.\<close>

definition channel :: "nat \<Rightarrow> string \<Rightarrow> string" where
  "channel k s = take 2 (drop (2 * k) s)"

text \<open>
  Reading a colour string back, for the round trip: the value of a hexadecimal digit
  from its character code (\<^verbatim>\<open>0\<close> to \<^verbatim>\<open>9\<close> are 48 to 57, \<^verbatim>\<open>a\<close> to \<^verbatim>\<open>f\<close> are 97 to 102,
  \<^verbatim>\<open>A\<close> to \<^verbatim>\<open>F\<close> are 65 to 70), and the number a string of such digits writes. This reader
  shares nothing with the writer above.
\<close>

definition hex_digit_value :: "char \<Rightarrow> nat option" where
  "hex_digit_value c =
     (let n = (of_char c :: nat) in
      if 48 \<le> n \<and> n \<le> 57 then Some (n - 48)
      else if 97 \<le> n \<and> n \<le> 102 then Some (n - 87)
      else if 65 \<le> n \<and> n \<le> 70 then Some (n - 55)
      else None)"

fun hex_number :: "nat \<Rightarrow> string \<Rightarrow> nat option" where
  "hex_number acc [] = Some acc"
| "hex_number acc (c # cs) =
     (case hex_digit_value c of
        None \<Rightarrow> None
      | Some d \<Rightarrow> hex_number (16 * acc + d) cs)"

definition decode_hex :: "string \<Rightarrow> nat option" where
  "decode_hex s = (if s = [] then None else hex_number 0 s)"

definition is_hex_digit :: "char \<Rightarrow> bool" where
  "is_hex_digit c = (hex_digit_value c \<noteq> None)"


subsection \<open>Parsed JSON and HTTP responses\<close>

text \<open>
  The value \<^verbatim>\<open>Response.json()\<close> resolves to. An object holds its own properties in
  order, each key once.
\<close>

datatype json =
    JNull
  | JBool bool
  | JNum real
  | JStr string
  | JArr "json list"
  | JObj "(string \<times> json) list"

text \<open>What \<^verbatim>\<open>if (v)\<close> tests; \<open>None\<close> is \<^verbatim>\<open>undefined\<close>.\<close>

fun truthy :: "json option \<Rightarrow> bool" where
  "truthy None = False"
| "truthy (Some JNull) = False"
| "truthy (Some (JBool b)) = b"
| "truthy (Some (JNum x)) = (x \<noteq> 0)"
| "truthy (Some (JStr s)) = (s \<noteq> [])"
| "truthy (Some (JArr xs)) = True"
| "truthy (Some (JObj kv)) = True"

record Response =
  status :: int
  \<comment> \<open>what \<^verbatim>\<open>resp.json()\<close> resolves to; \<open>None\<close> when the body is not JSON and the
      promise rejects\<close>
  resp_json :: "json option"

datatype error =
    APIError Response "json option" "json option"
    \<comment> \<open>\<^verbatim>\<open>new APIError({ response, json, message })\<close>\<close>
  | Error string
  | TypeError string
  | SyntaxError

text \<open>
  Reading the property \<open>k\<close> of a parsed value, for the names read here (\<^verbatim>\<open>error\<close>,
  \<^verbatim>\<open>url\<close>, \<^verbatim>\<open>message\<close>), which no array, string, number or boolean defines:
  \<^verbatim>\<open>undefined\<close> unless an object has the property, and a \<^verbatim>\<open>TypeError\<close> on
  \<^verbatim>\<open>null\<close>, which has no properties.
\<close>

fun own_prop :: "json \<Rightarrow> string \<Rightarrow> json option" where
  "own_prop (JObj kv) k = map_of kv k"
| "own_prop _ k = None"

definition get_prop :: "json \<Rightarrow> string \<Rightarrow> error + json option" where
  "get_prop j k =
     (if j = JNull
      then Inl (TypeError (''Cannot read properties of null (reading '' @ k @ '')''))
      else Inr (own_prop j k))"

fun isArray :: "json \<Rightarrow> bool" where
  "isArray (JArr xs) = True"
| "isArray _ = False"

text \<open>\<^verbatim>\<open>await resp.json().catch(() => ({}))\<close>.\<close>

definition json_or_empty :: "Response \<Rightarrow> json" where
  "json_or_empty resp = (case resp_json resp of None \<Rightarrow> JObj [] | Some j \<Rightarrow> j)"

subsection \<open>Pieces of the repository outside this file\<close>

text \<open>
  \<^verbatim>\<open>utils.ts\<close> and \<^verbatim>\<open>constant.ts\<close> are imported by the exporter; what it uses of
  them is taken as a parameter: the decoder of a base64 id's number, the three schemes
  that derive a stat.ink UUID from a game id, and the tables of
  \<^verbatim>\<open>SPLATNET3_STATINK_MAP\<close>.
\<close>

record Externals =
  b64Number :: "string \<Rightarrow> int"
  gameId :: "string \<Rightarrow> string"
  s3siGameId :: "string \<Rightarrow> string"
  s3sCoopGameId :: "string \<Rightarrow> string"
  RULE :: "string \<Rightarrow> string option"
  RESULT :: "string \<Rightarrow> string option"
  COOP_SPECIAL_MAP :: "string \<Rightarrow> string option"
  COOP_EVENT_MAP :: "int \<Rightarrow> string option"
  WATER_LEVEL_MAP :: "int \<Rightarrow> string option"

subsection \<open>The sessions SplatNet 3 reports\<close>

text \<open>
  Of each source type the fields this file reads. Fields that the exporter copies into
  the body without looking at them (job scores, scales, fest and rank data, the played
  time) are left out, here and in the bodies below; none of them raises or touches the
  network.
\<close>

datatype ImageUrl =
    UrlString string
  | UrlObject string   \<comment> \<open>\<^verbatim>\<open>{ pathname }\<close>, as the file exporter rewrites it\<close>

record Image =
  image_url :: "ImageUrl option"

record CoopWeapon =
  cw_name :: string
  cw_image :: "Image option"

record CoopSpecial =
  sp_name :: string
  sp_image :: Image

record CoopPlayer =
  pl_name :: string
  pl_nameId :: string
  pl_byname :: string
  pl_uniform_id :: string

record CoopHistoryPlayerResult =
  player :: CoopPlayer
  weapons :: "CoopWeapon list"
  specialWeapon :: "CoopSpecial option"
  defeatEnemyCount :: int
  deliverCount :: int
  goldenAssistCount :: int
  goldenDeliverCount :: int
  rescueCount :: int
  rescuedCount :: int

record WaveResult =
  waveNumber :: int
  waterLevel :: int
  eventWave_id :: "string option"
  deliverNorm :: int
  goldenPopCount :: int
  teamDeliverCount :: int
  specialWeapons :: "CoopSpecial list"

record GradeBefore =
  grade_id :: string
  gradePoint :: int

record BossResult =
  hasDefeatBoss :: bool
  boss_id :: string

record CoopHistoryDetail =
  coop_id :: string
  coop_rule :: string
  dangerRate :: real
  resultWave :: int
  bossResult :: "BossResult option"
  myResult :: CoopHistoryPlayerResult
  memberResults :: "CoopHistoryPlayerResult list"
  smellMeter :: "int option"
  waveResults :: "WaveResult list"
  afterGrade_id :: "string option"
  afterGradePoint :: "int option"
  coopStage_id :: string

record CoopInfo =
  gradeBefore :: "GradeBefore option"
  groupInfo_mode :: "string option"
  coop_detail :: CoopHistoryDetail

record PlayerGear =
  primaryGearPower_name :: string
  additionalGearPowers_names :: "string list"

record PlayerResult =
  pr_kill :: int
  pr_assist :: int
  pr_death :: int
  pr_noroshiTry :: "int option"
  pr_special :: int

record VsPlayer =
  isMyself :: bool
  vp_name :: string
  vp_nameId :: "string option"
  vp_byname :: string
  vp_weapon_id :: string
  paint :: int
  headGear :: PlayerGear
  clothingGear :: PlayerGear
  shoesGear :: PlayerGear
  vp_crown :: bool
  vp_result :: "PlayerResult option"

record Team =
  players :: "VsPlayer list"
  team_color :: Color

record VsHistoryDetail =
  vs_id :: string
  vsMode_mode :: string
  vsMode_id :: string
  bankaraMatch_mode :: "string option"
  vsStage_id :: string
  vsStage_name :: string
  vsRule_rule :: string
  judgement :: string
  myTeam :: Team
  otherTeams :: "Team list"
  awards_names :: "string list"
  knockout :: "string option"

record VsInfo =
  vs_detail :: VsHistoryDetail

datatype Game =
    VsInfo VsInfo
  | CoopInfo CoopInfo

subsection \<open>The bodies stat.ink receives\<close>

record StatInkCoopWave =
  tide :: "string option"
  event :: "string option"
  golden_quota :: int
  golden_appearances :: int
  golden_delivered :: int
  special_uses :: "(string \<times> int) list"
  danger_rate :: "int option"

record StatInkCoopPlayer =
  cp_me :: string
  cp_name :: string
  cp_number :: string
  cp_splashtag_title :: string
  cp_uniform :: string
  cp_special :: "string option"
  cp_weapons :: "string option list"
  cp_golden_eggs :: int
  cp_golden_assist :: int
  cp_power_eggs :: int
  cp_rescue :: int
  cp_rescued :: int
  cp_defeat_boss :: int
  cp_disconnected :: string

record StatInkCoopPostBody =
  cb_uuid :: string
  cb_private :: string
  cb_big_run :: string
  cb_eggstra_work :: string
  cb_stage :: string
  cb_danger_rate :: "real option"
  clear_waves :: int
  fail_reason :: "string option"
  king_smell :: "int option"
  king_salmonid :: "string option"
  clear_extra :: string
  title_before :: "string option"
  title_exp_before :: "int option"
  title_after :: "string option"
  title_exp_after :: "int option"
  cb_golden_eggs :: int
  cb_power_eggs :: int
  waves :: "StatInkCoopWave list"
  cb_players :: "StatInkCoopPlayer list"

record StatInkGear =
  primary_ability :: string
  secondary_abilities :: "string option list"

record StatInkGears =
  headgear :: StatInkGear
  clothing :: StatInkGear
  shoes :: StatInkGear

record StatInkPlayer =
  bp_me :: string
  bp_rank_in_team :: int
  bp_name :: string
  bp_number :: "string option"
  bp_splashtag_title :: string
  bp_weapon :: string
  bp_inked :: int
  bp_gears :: StatInkGears
  bp_crown :: string
  bp_disconnected :: string
  bp_kill_or_assist :: "int option"
  bp_assist :: "int option"
  bp_kill :: "int option"
  bp_death :: "int option"
  bp_signal :: "int option"
  bp_special :: "int option"

record StatInkPostBody =
  bb_uuid :: string
  bb_lobby :: string
  bb_rule :: "string option"
  bb_stage :: string
  bb_result :: "string option"
  bb_weapon :: string
  bb_inked :: int
  bb_rank_in_team :: int
  bb_medals :: "string list"
  our_team_players :: "StatInkPlayer list"
  their_team_players :: "StatInkPlayer list"
  third_team_players :: "StatInkPlayer list option"
  bb_kill_or_assist :: "int option"
  bb_assist :: "int option"
  bb_kill :: "int option"
  bb_death :: "int option"
  bb_signal :: "int option"
  bb_special :: "int option"
  our_team_color :: "string option"
  their_team_color :: "string option"
  third_team_color :: "string option"
  bb_knockout :: "string option"

datatype post_body =
    BattleBody StatInkPostBody
  | CoopBody StatInkCoopPostBody

record ExportResult =
  er_status :: string
  er_url :: "json option"


subsection \<open>The state of the client and the network\<close>

datatype request =
    GET string
  | POST string post_body   \<comment> \<open>the url and the body that \<^verbatim>\<open>msgpack.encode\<close> serialises\<close>

text \<open>
  The fields of a \<^verbatim>\<open>StatInkAPI\<close> object, with the requests sent so far and the lines
  written by \<^verbatim>\<open>console.warn\<close>. \<^verbatim>\<open>_salmonWeaponMap\<close> is a JavaScript \<^verbatim>\<open>Map\<close>: an
  association list in insertion order, \<^verbatim>\<open>set\<close> being \<^const>\<open>AList.update\<close>.
\<close>

record ApiState =
  cache :: "string \<rightharpoonup> json"
  salmonWeaponMap :: "(string \<times> string) list"
  requests :: "request list"
  console :: "string list"

text \<open>
  The fetcher of \<^verbatim>\<open>env.newFetcher()\<close>: the server's answer to a request, which may
  depend on the requests before it. Request headers are not modelled.
\<close>

record Env =
  server :: "request list \<Rightarrow> request \<Rightarrow> Response"

text \<open>A computation that reads and writes the state and returns or raises.\<close>

type_synonym 'a io = "ApiState \<Rightarrow> (error + 'a) \<times> ApiState"

definition io_return :: "'a \<Rightarrow> 'a io" where
  "io_return x = (\<lambda>s. (Inr x, s))"

definition io_raise :: "error \<Rightarrow> 'a io" where
  "io_raise e = (\<lambda>s. (Inl e, s))"

definition io_bind :: "'a io \<Rightarrow> ('a \<Rightarrow> 'b io) \<Rightarrow> 'b io" where
  "io_bind m f = (\<lambda>s. case m s of (Inl e, s') \<Rightarrow> (Inl e, s') | (Inr x, s') \<Rightarrow> f x s')"

text \<open>Running a computation on each element in turn, stopping at the first that raises.\<close>

fun io_map :: "('a \<Rightarrow> 'b io) \<Rightarrow> 'a list \<Rightarrow> 'b list io" where
  "io_map f [] = io_return []"
| "io_map f (x # xs) =
     io_bind (f x) (\<lambda>y. io_bind (io_map f xs) (\<lambda>ys. io_return (y # ys)))"

definition io_of :: "error + 'a \<Rightarrow> 'a io" where
  "io_of r = (case r of Inl e \<Rightarrow> io_raise e | Inr x \<Rightarrow> io_return x)"

definition fetch :: "Env \<Rightarrow> request \<Rightarrow> Response io" where
  "fetch env req =
     (\<lambda>s. (Inr (server env (requests s) req), s\<lparr>requests := requests s @ [req]\<rparr>))"

text \<open>\<^verbatim>\<open>await resp.json()\<close> with nothing to catch the rejection.\<close>

definition await_json :: "Response \<Rightarrow> json io" where
  "await_json resp =
     (case resp_json resp of None \<Rightarrow> io_raise SyntaxError | Some j \<Rightarrow> io_return j)"

subsection \<open>\<^verbatim>\<open>StatInkAPI\<close>\<close>

definition statInk :: string where
  "statInk = ''https://stat.ink''"

definition checkResponse :: "Response \<Rightarrow> unit io" where
  "checkResponse resp =
     (if status resp div 100 \<noteq> 2
      then io_raise (APIError resp (resp_json resp)
                       (Some (JStr ''Failed to fetch data from stat.ink'')))
      else io_return ())"

definition uuidList :: "Env \<Rightarrow> string \<Rightarrow> json list io" where
  "uuidList env type =
     io_bind (fetch env (GET (if type = ''VsInfo''
                              then statInk @ ''/api/v3/s3s/uuid-list''
                              else statInk @ ''/api/v3/salmon/uuid-list''))) (\<lambda>response.
     io_bind (checkResponse response) (\<lambda>_.
     io_bind (await_json response) (\<lambda>uuidResult.
       if \<not> isArray uuidResult
       then io_bind (io_of (get_prop uuidResult ''message'')) (\<lambda>message.
              io_raise (APIError response (Some uuidResult) message))
       else io_return (case uuidResult of JArr xs \<Rightarrow> xs | _ \<Rightarrow> []))))"

text \<open>
  \<^verbatim>\<open>postBattle\<close> and \<^verbatim>\<open>postCoop\<close> differ in the url and the type of the body only;
  \<open>post\<close> is their common text.
\<close>

definition post :: "Env \<Rightarrow> string \<Rightarrow> post_body \<Rightarrow> json io" where
  "post env url body =
     io_bind (fetch env (POST url body)) (\<lambda>resp.
       let json = json_or_empty resp in
       if status resp \<noteq> 200 \<and> status resp \<noteq> 201
       then io_raise (APIError resp (Some json) (Some (JStr ''Failed to export battle'')))
       else io_bind (io_of (get_prop json ''error'')) (\<lambda>err.
         if truthy err
         then io_raise (APIError resp (Some json) (Some (JStr ''Failed to export battle'')))
         else io_return json))"

definition postBattle :: "Env \<Rightarrow> StatInkPostBody \<Rightarrow> json io" where
  "postBattle env body = post env (statInk @ ''/api/v3/battle'') (BattleBody body)"

definition postCoop :: "Env \<Rightarrow> StatInkCoopPostBody \<Rightarrow> json io" where
  "postCoop env body = post env (statInk @ ''/api/v3/salmon'') (CoopBody body)"

definition fetchCached :: "Env \<Rightarrow> string \<Rightarrow> json io" where
  "fetchCached env url =
     io_bind (fetch env (GET url)) (\<lambda>resp.
     io_bind (checkResponse resp) (\<lambda>_.
     io_bind (await_json resp) (\<lambda>json s.
       (Inr json, s\<lparr>cache := (cache s)(url \<mapsto> json)\<rparr>))))"

definition getCached :: "Env \<Rightarrow> string \<Rightarrow> json io" where
  "getCached env url =
     (\<lambda>s. case cache s url of
            Some j \<Rightarrow> if truthy (Some j) then (Inr j, s) else fetchCached env url s
          | None \<Rightarrow> fetchCached env url s)"

text \<open>\<^verbatim>\<open>s.includes(t)\<close> and \<^verbatim>\<open>s.replaceAll(pat, rep)\<close> (for a pattern that is not empty).\<close>

fun includes_str :: "string \<Rightarrow> string \<Rightarrow> bool" where
  "includes_str [] t = (t = [])"
| "includes_str (c # cs) t = (prefix t (c # cs) \<or> includes_str cs t)"

fun replaceAll :: "string \<Rightarrow> string \<Rightarrow> string \<Rightarrow> string" where
  "replaceAll pat rep [] = []"
| "replaceAll pat rep (c # cs) =
     (if pat \<noteq> [] \<and> prefix pat (c # cs)
      then rep @ replaceAll pat rep (drop (length pat - 1) cs)
      else c # replaceAll pat rep cs)"

text \<open>The middle dot U+00B7 of stat.ink and the hyphenation point U+2027 of SplatNet.\<close>

definition STAT_INK_DOT :: string where
  "STAT_INK_DOT = [CHR 0xC2, CHR 0xB7]"

definition SPLATNET_DOT :: string where
  "SPLATNET_DOT = [CHR 0xE2, CHR 0x80, CHR 0xA7]"

definition getAliasName :: "string \<Rightarrow> string list" where
  "getAliasName name =
     (if includes_str name STAT_INK_DOT
      then [name, replaceAll STAT_INK_DOT SPLATNET_DOT name]
      else [name])"

text \<open>
  An entry of a stat.ink catalog (\<^verbatim>\<open>StatInkStage\<close>, \<^verbatim>\<open>StatInkWeapon\<close>,
  \<^verbatim>\<open>StatInkAbility\<close>): its key, its names by locale and its aliases.
\<close>

record CatalogEntry =
  entry_key :: string
  entry_name :: "(string \<times> string) list"
  aliases :: "string list"

fun as_string :: "json \<Rightarrow> string option" where
  "as_string (JStr s) = Some s"
| "as_string _ = None"

definition as_strings :: "json \<Rightarrow> string list option" where
  "as_strings j = (case j of JArr xs \<Rightarrow> those (map as_string xs) | _ \<Rightarrow> None)"

definition as_names :: "json \<Rightarrow> (string \<times> string) list option" where
  "as_names j =
     (case j of
        JObj kv \<Rightarrow> those (map (\<lambda>(k, v). map_option (Pair k) (as_string v)) kv)
      | _ \<Rightarrow> None)"

definition as_entry :: "json \<Rightarrow> CatalogEntry option" where
  "as_entry j =
     (case j of
        JObj kv \<Rightarrow>
          (case (map_of kv ''key'', map_of kv ''name'', map_of kv ''aliases'') of
             (Some (JStr k), Some n, Some a) \<Rightarrow>
               (case (as_names n, as_strings a) of
                  (Some ns, Some al) \<Rightarrow>
                    Some \<lparr>entry_key = k, entry_name = ns, aliases = al\<rparr>
                | _ \<Rightarrow> None)
           | _ \<Rightarrow> None)
      | _ \<Rightarrow> None)"

text \<open>
  Modelled from the spec: the type argument of \<^verbatim>\<open>_getCached<T>\<close> is declared in
  \<^verbatim>\<open>types.ts\<close>, which is not in the sources; the spec gives the wire format of a
  catalog as a JSON array of objects \<^verbatim>\<open>{key, name: {locale: string}, aliases: string[]}\<close>.
  The source casts the parsed JSON to \<open>T\<close> unchecked. JSON of another shape is outside
  this embedding, which reports it as a \<^const>\<open>TypeError\<close>.
\<close>

definition as_catalog :: "json \<Rightarrow> error + CatalogEntry list" where
  "as_catalog j =
     (case j of
        JArr xs \<Rightarrow>
          (case those (map as_entry xs) of
             Some es \<Rightarrow> Inr es
           | None \<Rightarrow> Inl (TypeError ''catalog entry of another type''))
      | _ \<Rightarrow> Inl (TypeError ''catalog of another type''))"

definition getCatalog :: "Env \<Rightarrow> string \<Rightarrow> CatalogEntry list io" where
  "getCatalog env url = io_bind (getCached env url) (\<lambda>json. io_of (as_catalog json))"

definition getSalmonWeapon :: "Env \<Rightarrow> CatalogEntry list io" where
  "getSalmonWeapon env = getCatalog env (statInk @ ''/api/v3/salmon/weapon?full=1'')"

definition getWeapon :: "Env \<Rightarrow> CatalogEntry list io" where
  "getWeapon env = getCatalog env (statInk @ ''/api/v3/weapon?full=1'')"

definition getAbility :: "Env \<Rightarrow> CatalogEntry list io" where
  "getAbility env = getCatalog env (statInk @ ''/api/v3/ability?full=1'')"

definition getStage :: "Env \<Rightarrow> CatalogEntry list io" where
  "getStage env = getCatalog env (statInk @ ''/api/v3/stage'')"

text \<open>\<^verbatim>\<open>Object.values(weapon.name).flatMap((n) => this._getAliasName(n))\<close>.\<close>

definition weapon_names :: "CatalogEntry \<Rightarrow> string list" where
  "weapon_names weapon = concat (map getAliasName (map snd (entry_name weapon)))"

text \<open>The body of the inner loop of \<^verbatim>\<open>getSalmonWeaponMap\<close>, for one name of one weapon.\<close>

definition setWeaponName :: "string \<Rightarrow> ApiState \<Rightarrow> string \<Rightarrow> ApiState" where
  "setWeaponName key s name =
     (let prevKey = map_of (salmonWeaponMap s) name;
          s1 = (if prevKey \<noteq> None \<and> prevKey \<noteq> Some key
                then s\<lparr>console := console s @ [''Duplicate weapon name: '' @ name]\<rparr>
                else s)
      in s1\<lparr>salmonWeaponMap := AList.update name key (salmonWeaponMap s1)\<rparr>)"

definition addWeapon :: "ApiState \<Rightarrow> CatalogEntry \<Rightarrow> ApiState" where
  "addWeapon s weapon = foldl (setWeaponName (entry_key weapon)) s (weapon_names weapon)"

definition getSalmonWeaponMap :: "Env \<Rightarrow> (string \<times> string) list io" where
  "getSalmonWeaponMap env =
     (\<lambda>s. if length (salmonWeaponMap s) = 0
          then io_bind (getSalmonWeapon env) (\<lambda>weapons s1.
                 let s2 = foldl addWeapon s1 weapons in
                 if length (salmonWeaponMap s2) = 0
                 then (Inl (Error ''Failed to get salmon weapon map''), s2)
                 else (Inr (salmonWeaponMap s2), s2)) s
          else (Inr (salmonWeaponMap s), s))"


subsection \<open>\<^verbatim>\<open>StatInkExporter\<close>: the filter of games already uploaded\<close>

text \<open>The loop of \<^verbatim>\<open>notExported\<close>; \<open>out\<close> is the array it pushes to.\<close>

fun notExported_loop :: "Externals \<Rightarrow> json list \<Rightarrow> string list \<Rightarrow> string list \<Rightarrow> string list" where
  "notExported_loop ext uuid [] out = out"
| "notExported_loop ext uuid (gid # rest) out =
     (let s3sId = gameId ext gid;
          s3siId = s3siGameId ext gid;
          s3sCoopId = s3sCoopGameId ext gid
      in notExported_loop ext uuid rest
           (if JStr s3sId \<notin> set uuid \<and> JStr s3siId \<notin> set uuid \<and> JStr s3sCoopId \<notin> set uuid
            then out @ [gid] else out))"

definition notExported :: "Env \<Rightarrow> Externals \<Rightarrow> string \<Rightarrow> string list \<Rightarrow> string list io" where
  "notExported env ext type list =
     io_bind (uuidList env type) (\<lambda>uuid. io_return (notExported_loop ext uuid list []))"

subsection \<open>\<^verbatim>\<open>StatInkExporter\<close>: versus battles\<close>

definition mapLobby :: "Externals \<Rightarrow> VsHistoryDetail \<Rightarrow> error + string" where
  "mapLobby ext vsDetail =
     (let vsMode = vsMode_mode vsDetail;
          unknown = Inl (TypeError (''Unknown vsMode '' @ vsMode))
      in if vsMode = ''REGULAR'' then Inr ''regular''
         else if vsMode = ''BANKARA'' then
           (let mode = (case bankaraMatch_mode vsDetail of None \<Rightarrow> ''UNKNOWN'' | Some m \<Rightarrow> m);
                result = (if mode = ''OPEN'' then ''bankara_open''
                          else if mode = ''CHALLENGE'' then ''bankara_challenge''
                          else [])
            in if result \<noteq> [] then Inr result else unknown)
         else if vsMode = ''PRIVATE'' then Inr ''private''
         else if vsMode = ''FEST'' then
           (let modeId = b64Number ext (vsMode_id vsDetail)
            in if modeId = 6 then Inr ''splatfest_open''
               else if modeId = 7 then Inr ''splatfest_challenge''
               else if modeId = 8 then Inr ''splatfest_open''
               else unknown)
         else if vsMode = ''X_MATCH'' then Inr ''xmatch''
         else unknown)"

definition mapStage :: "Env \<Rightarrow> Externals \<Rightarrow> VsHistoryDetail \<Rightarrow> string io" where
  "mapStage env ext vsDetail =
     (let sid = toString (b64Number ext (vsStage_id vsDetail)) in
      io_bind (getStage env) (\<lambda>stage.
        case find (\<lambda>s. sid \<in> set (aliases s)) stage of
          None \<Rightarrow> io_raise (Error (''Unknown stage: '' @ vsStage_name vsDetail))
        | Some result \<Rightarrow> io_return (entry_key result)))"

definition mapAbility :: "CatalogEntry list \<Rightarrow> string \<Rightarrow> string option" where
  "mapAbility amap name =
     map_option entry_key (find (\<lambda>a. name \<in> set (map snd (entry_name a))) amap)"

definition mapGear :: "CatalogEntry list \<Rightarrow> PlayerGear \<Rightarrow> error + StatInkGear" where
  "mapGear amap gear =
     (case mapAbility amap (primaryGearPower_name gear) of
        None \<Rightarrow> Inl (Error (''Unknown ability: '' @ primaryGearPower_name gear))
      | Some primary \<Rightarrow>
          if primary = []
          then Inl (Error (''Unknown ability: '' @ primaryGearPower_name gear))
          else Inr \<lparr>primary_ability = primary,
                    secondary_abilities =
                      map (mapAbility amap) (additionalGearPowers_names gear)\<rparr>)"

definition mapGears :: "Env \<Rightarrow> VsPlayer \<Rightarrow> StatInkGears io" where
  "mapGears env p =
     io_bind (getAbility env) (\<lambda>amap.
     io_bind (io_of (mapGear amap (headGear p))) (\<lambda>h.
     io_bind (io_of (mapGear amap (clothingGear p))) (\<lambda>c.
     io_bind (io_of (mapGear amap (shoesGear p))) (\<lambda>sh.
       io_return \<lparr>headgear = h, clothing = c, shoes = sh\<rparr>))))"

definition yes_no :: "bool \<Rightarrow> string" where
  "yes_no b = (if b then ''yes'' else ''no'')"

definition mapPlayer :: "Env \<Rightarrow> Externals \<Rightarrow> VsPlayer \<Rightarrow> nat \<Rightarrow> StatInkPlayer io" where
  "mapPlayer env ext p index =
     (let r = vp_result p in
      io_bind (mapGears env p) (\<lambda>gs.
        io_return
          \<lparr>bp_me = yes_no (isMyself p),
           bp_rank_in_team = int index + 1,
           bp_name = vp_name p,
           bp_number = vp_nameId p,
           bp_splashtag_title = vp_byname p,
           bp_weapon = toString (b64Number ext (vp_weapon_id p)),
           bp_inked = paint p,
           bp_gears = gs,
           bp_crown = yes_no (vp_crown p),
           bp_disconnected = yes_no (r = None),
           bp_kill_or_assist = map_option pr_kill r,
           bp_assist = map_option pr_assist r,
           bp_kill = map_option (\<lambda>x. pr_kill x - pr_assist x) r,
           bp_death = map_option pr_death r,
           bp_signal = Option.bind r pr_noroshiTry,
           bp_special = map_option pr_special r\<rparr>))"

text \<open>\<^verbatim>\<open>players.map(this.mapPlayer)\<close>: each player with its index.\<close>

definition mapPlayers :: "Env \<Rightarrow> Externals \<Rightarrow> VsPlayer list \<Rightarrow> StatInkPlayer list io" where
  "mapPlayers env ext ps =
     io_map (\<lambda>(p, index). mapPlayer env ext p index) (zip ps [0 ..< length ps])"

definition mapBattle :: "Env \<Rightarrow> Externals \<Rightarrow> VsInfo \<Rightarrow> StatInkPostBody io" where
  "mapBattle env ext info =
     (let vsDetail = vs_detail info;
          my = myTeam vsDetail;
          others = otherTeams vsDetail
      in case find isMyself (players my) of
           None \<Rightarrow> io_raise (Error ''Self not found'')
         | Some self \<Rightarrow>
             (case others of
                [] \<Rightarrow> io_raise (Error ''Other teams is empty'')
              | other0 # rest \<Rightarrow>
                  io_bind (io_of (mapLobby ext vsDetail)) (\<lambda>lobby.
                  io_bind (mapStage env ext vsDetail) (\<lambda>stage.
                  io_bind (mapPlayers env ext (players my)) (\<lambda>ours.
                  io_bind (mapPlayers env ext (players other0)) (\<lambda>theirs.
                  io_bind (if (vsRule_rule vsDetail = ''TURF_WAR'' \<or> vsRule_rule vsDetail = ''TRI_COLOR'')
                              \<and> length others = 2
                           then io_bind (mapPlayers env ext (players (others ! 1)))
                                  (\<lambda>ps. io_return (Some ps))
                           else io_return None) (\<lambda>third.
                    let r = vp_result self in
                    io_return
                      \<lparr>bb_uuid = gameId ext (vs_id vsDetail),
                       bb_lobby = lobby,
                       bb_rule = RULE ext (vsRule_rule vsDetail),
                       bb_stage = stage,
                       bb_result = RESULT ext (judgement vsDetail),
                       bb_weapon = toString (b64Number ext (vp_weapon_id self)),
                       bb_inked = paint self,
                       bb_rank_in_team =
                         int (length (takeWhile (\<lambda>p. p \<noteq> self) (players my))) + 1,
                       bb_medals = awards_names vsDetail,
                       our_team_players = ours,
                       their_team_players = theirs,
                       third_team_players = third,
                       bb_kill_or_assist = map_option pr_kill r,
                       bb_assist = map_option pr_assist r,
                       bb_kill = map_option (\<lambda>x. pr_kill x - pr_assist x) r,
                       bb_death = map_option pr_death r,
                       bb_signal = Option.bind r pr_noroshiTry,
                       bb_special = map_option pr_special r,
                       our_team_color = Some (mapColor (team_color my)),
                       their_team_color = Some (mapColor (team_color other0)),
                       third_team_color =
                         (if length others = 2
                          then Some (mapColor (team_color (others ! 1))) else None),
                       bb_knockout =
                         (case knockout vsDetail of
                            None \<Rightarrow> None
                          | Some k \<Rightarrow>
                              if k = [] then None
                              else Some (if k = ''NEITHER'' then ''no'' else ''yes''))\<rparr>)))))))"


subsection \<open>\<^verbatim>\<open>StatInkExporter\<close>: Salmon Run\<close>

definition COOP_POINT_MAP :: "int \<Rightarrow> int option" where
  "COOP_POINT_MAP n =
     (if n = 0 then Some (- 20)
      else if n = 1 then Some (- 10)
      else if n = 2 then Some 0
      else if n = 3 then Some 20
      else None)"

definition RANDOM_FILENAME :: string where
  "RANDOM_FILENAME = ''473fffb2442075078d8bb7125744905abdeae651b6a5b7453ae295582e45f7d1''"

definition isRandom :: "Image option \<Rightarrow> bool" where
  "isRandom img =
     (case img of
        None \<Rightarrow> False
      | Some im \<Rightarrow>
          (case image_url im of
             None \<Rightarrow> False
           | Some (UrlString u) \<Rightarrow> includes_str u RANDOM_FILENAME
           | Some (UrlObject pathname) \<Rightarrow> includes_str pathname RANDOM_FILENAME))"

text \<open>
  \<^verbatim>\<open>if (!weapon)\<close> and \<^verbatim>\<open>if (!special)\<close> test a string or \<^verbatim>\<open>undefined\<close>: the empty
  string counts as missing.
\<close>

definition mapCoopWeapon :: "Env \<Rightarrow> CoopWeapon \<Rightarrow> string option io" where
  "mapCoopWeapon env w =
     io_bind (getSalmonWeaponMap env) (\<lambda>weaponMap.
       let weapon = map_of weaponMap (cw_name w) in
       if weapon = None \<or> weapon = Some []
       then (if isRandom (cw_image w) then io_return None
             else io_raise (Error (''Weapon not found: '' @ cw_name w)))
       else io_return weapon)"

text \<open>
  The first group of the first match of \<^verbatim>\<open>/\/(\w+)_0\.\w+/\<close>. After a slash the
  match has to take the whole run of word characters, since the dot that follows
  \<^verbatim>\<open>_0\<close> is not one: the run ends in \<^verbatim>\<open>_0\<close> after at least one character, and a dot
  and a word character follow it.
\<close>

definition is_word :: "char \<Rightarrow> bool" where
  "is_word c =
     (c \<in> set ''abcdefghijklmnopqrstuvwxyzABCDEFGHIJKLMNOPQRSTUVWXYZ0123456789_'')"

fun exec_hash :: "string \<Rightarrow> string option" where
  "exec_hash [] = None"
| "exec_hash (c # cs) =
     (let run = takeWhile is_word cs; after = dropWhile is_word cs in
      if c = CHR ''/'' \<and> 3 \<le> length run \<and> drop (length run - 2) run = ''_0''
         \<and> (case after of d # e # _ \<Rightarrow> d = CHR ''.'' \<and> is_word e | _ \<Rightarrow> False)
      then Some (take (length run - 2) run)
      else exec_hash cs)"

definition mapSpecial :: "Externals \<Rightarrow> CoopSpecial \<Rightarrow> error + string option" where
  "mapSpecial ext sp =
     (let imageName = (case image_url (sp_image sp) of
                         Some (UrlObject pathname) \<Rightarrow> pathname
                       | Some (UrlString u) \<Rightarrow> u
                       | None \<Rightarrow> []);
          hash = (case exec_hash imageName of Some h \<Rightarrow> h | None \<Rightarrow> []);
          special = COOP_SPECIAL_MAP ext hash
      in if special = None \<or> special = Some []
         then (if isRandom (Some (sp_image sp)) then Inr None
               else Inl (Error (''Special not found: '' @ sp_name sp
                                  @ '' ('' @ imageName @ '')'')))
         else Inr special)"

text \<open>Mapping a list with a function that may raise: the first error, in list order.\<close>

fun sum_map :: "('a \<Rightarrow> error + 'b) \<Rightarrow> 'a list \<Rightarrow> error + 'b list" where
  "sum_map f [] = Inr []"
| "sum_map f (x # xs) =
     (case f x of
        Inl e \<Rightarrow> Inl e
      | Inr y \<Rightarrow> (case sum_map f xs of Inl e \<Rightarrow> Inl e | Inr ys \<Rightarrow> Inr (y # ys)))"

definition disconnected :: "CoopHistoryPlayerResult \<Rightarrow> bool" where
  "disconnected r =
     (list_all (\<lambda>v. v = 0)
        [goldenDeliverCount r, deliverCount r, rescueCount r, rescuedCount r,
         defeatEnemyCount r]
      \<or> specialWeapon r = None)"

definition mapCoopPlayer ::
  "Env \<Rightarrow> Externals \<Rightarrow> bool \<Rightarrow> CoopHistoryPlayerResult \<Rightarrow> StatInkCoopPlayer io" where
  "mapCoopPlayer env ext me r =
     io_bind (case specialWeapon r of
                Some sw \<Rightarrow> io_of (mapSpecial ext sw)
              | None \<Rightarrow> io_return None) (\<lambda>special.
     io_bind (io_map (mapCoopWeapon env) (weapons r)) (\<lambda>ws.
       io_return
         \<lparr>cp_me = yes_no me,
          cp_name = pl_name (player r),
          cp_number = pl_nameId (player r),
          cp_splashtag_title = pl_byname (player r),
          cp_uniform = toString (b64Number ext (pl_uniform_id (player r))),
          cp_special = special,
          cp_weapons = ws,
          cp_golden_eggs = goldenDeliverCount r,
          cp_golden_assist = goldenAssistCount r,
          cp_power_eggs = deliverCount r,
          cp_rescue = rescueCount r,
          cp_rescued = rescuedCount r,
          cp_defeat_boss = defeatEnemyCount r,
          cp_disconnected = yes_no (disconnected r)\<rparr>))"

definition mapKing :: "Externals \<Rightarrow> string option \<Rightarrow> string option" where
  "mapKing ext kid =
     (case kid of
        None \<Rightarrow> None
      | Some i \<Rightarrow> if i = [] then None else Some (toString (b64Number ext i)))"

text \<open>
  The \<^verbatim>\<open>reduce\<close> of \<^verbatim>\<open>mapWave\<close>: \<^verbatim>\<open>{ ...p, [key]: (p[key] ?? 0) + 1 }\<close> keeps the
  place of a key that \<open>p\<close> has.
\<close>

definition count_key :: "(string \<times> int) list \<Rightarrow> string \<Rightarrow> (string \<times> int) list" where
  "count_key p key =
     AList.update key ((case map_of p key of None \<Rightarrow> 0 | Some n \<Rightarrow> n) + 1) p"

definition mapWave :: "Externals \<Rightarrow> WaveResult \<Rightarrow> error + StatInkCoopWave" where
  "mapWave ext wave =
     (case sum_map (mapSpecial ext) (specialWeapons wave) of
        Inl e \<Rightarrow> Inl e
      | Inr keys \<Rightarrow>
          Inr \<lparr>tide = WATER_LEVEL_MAP ext (waterLevel wave),
               event = (case eventWave_id wave of
                          Some eid \<Rightarrow> COOP_EVENT_MAP ext (b64Number ext eid)
                        | None \<Rightarrow> None),
               golden_quota = deliverNorm wave,
               golden_appearances = goldenPopCount wave,
               golden_delivered = teamDeliverCount wave,
               special_uses =
                 foldl count_key []
                   (concat (map (\<lambda>key. case key of
                                          Some k \<Rightarrow> if k = [] then [] else [k]
                                        | None \<Rightarrow> []) keys)),
               danger_rate = None\<rparr>)"

definition maxWaves :: "CoopHistoryDetail \<Rightarrow> int" where
  "maxWaves d = (if coop_rule d = ''TEAM_CONTEST'' then 5 else 3)"

definition clearWaves :: "CoopHistoryDetail \<Rightarrow> int" where
  "clearWaves d =
     (if length (waveResults d) > 0
      then int (length (filter (\<lambda>i. waveNumber i < maxWaves d + 1) (waveResults d)))
           - 1 + (if resultWave d = 0 then 1 else 0)
      else 0)"

text \<open>
  \<^verbatim>\<open>title_before\<close> and \<^verbatim>\<open>title_exp_before\<close>, from \<^verbatim>\<open>gradeBefore\<close> or, without it,
  from the title after the shift and the points the cleared waves are worth. An empty
  branch of the source leaves both \<^verbatim>\<open>undefined\<close>.
\<close>

definition titleBefore ::
  "Externals \<Rightarrow> GradeBefore option \<Rightarrow> string option \<Rightarrow> int option \<Rightarrow> int
     \<Rightarrow> string option \<times> int option" where
  "titleBefore ext grade title_after' title_exp_after' clear_waves' =
     (case grade of
        Some gb \<Rightarrow> (Some (toString (b64Number ext (grade_id gb))), Some (gradePoint gb))
      | None \<Rightarrow>
          (case (title_after', title_exp_after', COOP_POINT_MAP clear_waves') of
             (Some ta, Some tea, Some expDiff) \<Rightarrow>
               if tea = 40 \<and> expDiff = 20 then (None, None)
               else if tea = 40 \<and> expDiff < 0 \<and> ta \<noteq> ''8'' then (None, None)
               else if tea = 999 \<and> expDiff \<noteq> 0 then (Some ta, None)
               else if tea - expDiff \<ge> 0 then (Some ta, Some (tea - expDiff))
               else (Some (case parseInt ta of
                             None \<Rightarrow> ''NaN''
                           | Some n \<Rightarrow> toString (n - 1)), None)
           | _ \<Rightarrow> (None, None)))"

definition failReason :: "CoopHistoryDetail \<Rightarrow> string option" where
  "failReason d =
     (if clearWaves d \<noteq> maxWaves d \<and> length (waveResults d) > 0
      then (let lastWave = last (waveResults d) in
            if teamDeliverCount lastWave \<ge> deliverNorm lastWave
            then Some ''wipe_out'' else None)
      else None)"

text \<open>
  The assignments to \<^verbatim>\<open>added_percent\<close> in the loop over the waves of a team contest.
  The quota is a whole number, so \<^verbatim>\<open>quota * 1.5\<close> is exact in a double as it is here.
\<close>

definition added_percent :: "nat \<Rightarrow> int \<Rightarrow> int \<Rightarrow> int" where
  "added_percent num_players quota delivered =
     (if num_players = 4 then
        (if delivered \<ge> quota * 2 then 60
         else if real_of_int delivered \<ge> real_of_int quota * 1.5 then 30 else 0)
      else if num_players = 3 then
        (if delivered \<ge> quota * 2 then 40
         else if real_of_int delivered \<ge> real_of_int quota * 1.5 then 20 else 0)
      else if num_players = 2 then
        (if delivered \<ge> quota * 2 then 20
         else if real_of_int delivered \<ge> real_of_int quota * 1.5 then 5 else 0)
      else if num_players = 1 then
        (if delivered \<ge> quota * 2 then 10
         else if real_of_int delivered \<ge> real_of_int quota * 1.5 then 5 else 0)
      else 0)"

text \<open>
  The loop itself: \<open>lastWave\<close> is the wave of the round before, with the rate the loop
  gave it. A rate of \<^verbatim>\<open>null\<close> would add as 0.
\<close>

fun danger_loop :: "nat \<Rightarrow> StatInkCoopWave option \<Rightarrow> StatInkCoopWave list \<Rightarrow> StatInkCoopWave list" where
  "danger_loop num_players lastWave [] = []"
| "danger_loop num_players lastWave (wave # rest) =
     (let haz_level =
            (case lastWave of
               None \<Rightarrow> 60
             | Some lw \<Rightarrow>
                 (case danger_rate lw of None \<Rightarrow> 0 | Some prev_percent \<Rightarrow> prev_percent)
                 + added_percent num_players (golden_quota lw) (golden_delivered lw));
          wave' = wave\<lparr>danger_rate := Some haz_level\<rparr>
      in wave' # danger_loop num_players (Some wave') rest)"

text \<open>The object literal \<^verbatim>\<open>result\<close> of \<^verbatim>\<open>mapCoop\<close>, given the mapped waves and players.\<close>

definition coopResult ::
  "Externals \<Rightarrow> CoopInfo \<Rightarrow> StatInkCoopWave list \<Rightarrow> StatInkCoopPlayer list
     \<Rightarrow> StatInkCoopPostBody" where
  "coopResult ext info ws ps =
     (let d = coop_detail info;
          title_after' = map_option (\<lambda>i. toString (b64Number ext i)) (afterGrade_id d);
          inferred = titleBefore ext (gradeBefore info) title_after' (afterGradePoint d)
                     (clearWaves d)
      in \<lparr>cb_uuid = gameId ext (coop_id d),
          cb_private = yes_no (groupInfo_mode info = Some ''PRIVATE_CUSTOM''),
          cb_big_run = yes_no (coop_rule d = ''BIG_RUN''),
          cb_eggstra_work = yes_no (coop_rule d = ''TEAM_CONTEST''),
          cb_stage = toString (b64Number ext (coopStage_id d)),
          cb_danger_rate =
            (if coop_rule d = ''TEAM_CONTEST'' then None
             else Some (dmul (dangerRate d) 100)),
          clear_waves = clearWaves d,
          fail_reason = failReason d,
          king_smell = smellMeter d,
          king_salmonid = mapKing ext (map_option boss_id (bossResult d)),
          clear_extra =
            yes_no (case bossResult d of Some b \<Rightarrow> hasDefeatBoss b | None \<Rightarrow> False),
          title_before = fst inferred,
          title_exp_before = snd inferred,
          title_after = title_after',
          title_exp_after = afterGradePoint d,
          cb_golden_eggs = foldl (\<lambda>prev i. prev + teamDeliverCount i) 0 (waveResults d),
          cb_power_eggs =
            deliverCount (myResult d)
            + foldl (\<lambda>p i. p + deliverCount i) 0 (memberResults d),
          waves = ws,
          cb_players = ps\<rparr>)"

definition mapCoop :: "Env \<Rightarrow> Externals \<Rightarrow> CoopInfo \<Rightarrow> StatInkCoopPostBody io" where
  "mapCoop env ext info =
     (let d = coop_detail info in
      io_bind (io_of (sum_map (mapWave ext) (waveResults d))) (\<lambda>ws.
      io_bind (io_map (\<lambda>(me, r). mapCoopPlayer env ext me r)
                 ((True, myResult d) # map (Pair False) (memberResults d))) (\<lambda>ps.
        let result = coopResult ext info ws ps in
        io_return
          (if coop_rule d = ''TEAM_CONTEST''
           then result\<lparr>waves := danger_loop (length (cb_players result)) None (waves result)\<rparr>
           else result))))"

subsection \<open>\<^verbatim>\<open>exportGame\<close>\<close>

definition exportGame :: "Env \<Rightarrow> Externals \<Rightarrow> Game \<Rightarrow> ExportResult io" where
  "exportGame env ext game =
     (case game of
        VsInfo g \<Rightarrow>
          io_bind (mapBattle env ext g) (\<lambda>body.
          io_bind (postBattle env body) (\<lambda>json.
          io_bind (io_of (get_prop json ''url'')) (\<lambda>url.
            io_return \<lparr>er_status = ''success'', er_url = url\<rparr>)))
      | CoopInfo g \<Rightarrow>
          io_bind (mapCoop env ext g) (\<lambda>body.
          io_bind (postCoop env body) (\<lambda>json.
          io_bind (io_of (get_prop json ''url'')) (\<lambda>url.
            io_return \<lparr>er_status = ''success'', er_url = url\<rparr>))))"

subsection \<open>Example sessions\<close>

text \<open>
  Concrete inputs on which the definitions above are run. The stand-in for
  \<^verbatim>\<open>b64Number\<close> reads an id written in decimal; the three UUID schemes prefix the id.
\<close>

definition example_ext :: Externals where
  "example_ext =
     \<lparr>b64Number = (\<lambda>s. case parseInt s of Some n \<Rightarrow> n | None \<Rightarrow> 0),
      gameId = (\<lambda>s. ''a-'' @ s),
      s3siGameId = (\<lambda>s. ''b-'' @ s),
      s3sCoopGameId = (\<lambda>s. ''c-'' @ s),
      RULE = (\<lambda>r. None),
      RESULT = (\<lambda>r. None),
      COOP_SPECIAL_MAP = (\<lambda>h. if h = ''abc'' then Some ''nicedama'' else None),
      COOP_EVENT_MAP = (\<lambda>n. None),
      WATER_LEVEL_MAP = (\<lambda>n. None)\<rparr>"

definition example_state :: ApiState where
  "example_state = \<lparr>cache = Map.empty, salmonWeaponMap = [], requests = [], console = []\<rparr>"

definition example_env :: Env where
  "example_env = \<lparr>server = (\<lambda>log req. \<lparr>status = 404, resp_json = None\<rparr>)\<rparr>"

definition example_special :: CoopSpecial where
  "example_special =
     \<lparr>sp_name = ''Booyah Bomb'',
      sp_image = \<lparr>image_url = Some (UrlString ''/special/abc_0.png'')\<rparr>\<rparr>"

definition example_player :: "int \<Rightarrow> CoopSpecial option \<Rightarrow> CoopHistoryPlayerResult" where
  "example_player eggs sw =
     \<lparr>player = \<lparr>pl_name = ''p'', pl_nameId = ''1234'', pl_byname = ''t'', pl_uniform_id = ''1''\<rparr>,
      weapons = [],
      specialWeapon = sw,
      defeatEnemyCount = 0,
      deliverCount = 0,
      goldenAssistCount = 0,
      goldenDeliverCount = eggs,
      rescueCount = 0,
      rescuedCount = 0\<rparr>"

definition example_mapped_player :: "string \<Rightarrow> int \<Rightarrow> string option \<Rightarrow> string \<Rightarrow> StatInkCoopPlayer" where
  "example_mapped_player me eggs special disc =
     \<lparr>cp_me = me, cp_name = ''p'', cp_number = ''1234'', cp_splashtag_title = ''t'',
      cp_uniform = ''1'', cp_special = special, cp_weapons = [], cp_golden_eggs = eggs,
      cp_golden_assist = 0, cp_power_eggs = 0, cp_rescue = 0, cp_rescued = 0,
      cp_defeat_boss = 0, cp_disconnected = disc\<rparr>"

definition example_wave :: "int \<Rightarrow> int \<Rightarrow> int \<Rightarrow> WaveResult" where
  "example_wave n quota delivered =
     \<lparr>waveNumber = n, waterLevel = 1, eventWave_id = None, deliverNorm = quota,
      goldenPopCount = 2 * delivered, teamDeliverCount = delivered, specialWeapons = []\<rparr>"

text \<open>
  A session without \<^verbatim>\<open>gradeBefore\<close> that ends with title 5 and 40 points, played by
  one player with 7 golden eggs and a special weapon and by the given members. Its danger
  rate is the double that \<^verbatim>\<open>2.18\<close> denotes, \<open>4908923593833841 / 2\<^sup>5\<^sup>1\<close>.
\<close>

definition example_coop ::
  "string \<Rightarrow> int \<Rightarrow> WaveResult list \<Rightarrow> CoopHistoryPlayerResult list \<Rightarrow> CoopInfo" where
  "example_coop rule rw ws members =
     \<lparr>gradeBefore = None,
      groupInfo_mode = None,
      coop_detail =
        \<lparr>coop_id = ''g1'', coop_rule = rule, dangerRate = 4908923593833841 / 2251799813685248,
         resultWave = rw,
         bossResult = None, myResult = example_player 7 (Some example_special),
         memberResults = members, smellMeter = None, waveResults = ws,
         afterGrade_id = Some ''5'', afterGradePoint = Some 40, coopStage_id = ''2''\<rparr>\<rparr>"

text \<open>
  Red 1, green 0, blue 1/2 and, for alpha, the double that \<^verbatim>\<open>0.00196078431372549\<close>
  denotes, \<open>282578800148737 / 2\<^sup>5\<^sup>7\<close>.
\<close>

definition example_color :: Color where
  "example_color =
     \<lparr>color_r = 1, color_g = 0, color_b = 1 / 2,
      color_a = 282578800148737 / 144115188075855872\<rparr>"

text \<open>A server that gives the same answer to every request.\<close>

definition answering :: "Response \<Rightarrow> Env" where
  "answering resp = \<lparr>server = (\<lambda>log req. resp)\<rparr>"

definition example_coop_body :: StatInkCoopPostBody where
  "example_coop_body =
     coopResult example_ext (example_coop ''REGULAR'' 0 [] []) []
       [example_mapped_player ''yes'' 7 (Some ''nicedama'') ''no'']"


definition example_weapons :: json where
  "example_weapons =
     JArr [JObj [(''key'', JStr ''wakaba''),
                 (''name'', JObj [(''en_US'', JStr ''Splattershot Jr.''), (''ja_JP'', JStr ''shooter'')]),
                 (''aliases'', JArr [JStr ''10''])],
           JObj [(''key'', JStr ''sshooter''),
                 (''name'', JObj [(''en_US'', JStr ''Splattershot''), (''ja_JP'', JStr ''shooter'')]),
                 (''aliases'', JArr [JStr ''40''])]]"

definition example_entry :: "string \<Rightarrow> string \<Rightarrow> string \<Rightarrow> string \<Rightarrow> CatalogEntry" where
  "example_entry k en ja al =
     \<lparr>entry_key = k, entry_name = [(''en_US'', en), (''ja_JP'', ja)], aliases = [al]\<rparr>"

definition example_gear :: PlayerGear where
  "example_gear = \<lparr>primaryGearPower_name = ''Ink Saver (Main)'', additionalGearPowers_names = []\<rparr>"

definition example_vs_player :: "bool \<Rightarrow> VsPlayer" where
  "example_vs_player self =
     \<lparr>isMyself = self, vp_name = ''p'', vp_nameId = Some ''1234'', vp_byname = ''t'',
      vp_weapon_id = ''40'', paint = 900, headGear = example_gear, clothingGear = example_gear,
      shoesGear = example_gear, vp_crown = False, vp_result = None\<rparr>"

text \<open>
  A turf war in the given mode on the stage with the given id; the first argument says
  whether the player is among the players of the own team.
\<close>

definition example_vs :: "bool \<Rightarrow> string \<Rightarrow> string \<Rightarrow> VsInfo" where
  "example_vs self mode stage =
     \<lparr>vs_detail =
        \<lparr>vs_id = ''v1'', vsMode_mode = mode, vsMode_id = ''1'', bankaraMatch_mode = None,
         vsStage_id = stage, vsStage_name = ''Scorch Gorge'', vsRule_rule = ''TURF_WAR'',
         judgement = ''WIN'',
         myTeam = \<lparr>players = [example_vs_player self],
                   team_color = \<lparr>color_r = 1, color_g = 0, color_b = 0, color_a = 1\<rparr>\<rparr>,
         otherTeams = [\<lparr>players = [example_vs_player False],
                        team_color = \<lparr>color_r = 0, color_g = 0, color_b = 1, color_a = 1\<rparr>\<rparr>],
         awards_names = [], knockout = None\<rparr>\<rparr>"

definition example_stages :: json where
  "example_stages =
     JArr [JObj [(''key'', JStr ''yunohana''),
                 (''name'', JObj [(''en_US'', JStr ''Scorch Gorge'')]),
                 (''aliases'', JArr [JStr ''1'', JStr ''scorch_gorge''])]]"

subsection \<open>What the upload client promises\<close>

fun is_POST :: "request \<Rightarrow> bool" where
  "is_POST (POST u b) = True"
| "is_POST (GET u) = False"

text \<open>A computation that sends no POST request, whatever the state it starts in.\<close>

definition no_post :: "'a io \<Rightarrow> bool" where
  "no_post m = (\<forall>s. filter is_POST (requests (snd (m s))) = filter is_POST (requests s))"


text \<open>
  The outcome of \<^verbatim>\<open>postBattle\<close> and \<^verbatim>\<open>postCoop\<close> against the server's response: the
  call returns the parsed body exactly when the status is 200 or 201 and the \<^verbatim>\<open>error\<close>
  property of the body is missing or falsy; a wrong status or a truthy \<^verbatim>\<open>error\<close> raises
  the \<^verbatim>\<open>APIError\<close> that carries the response and the parsed body.
\<close>

definition post_contract :: "Response \<Rightarrow> error + json \<Rightarrow> bool" where
  "post_contract resp outcome =
     (let json = json_or_empty resp;
          good_status = (status resp = 200 \<or> status resp = 201);
          err = own_prop json ''error''
      in case outcome of
           Inr j \<Rightarrow> good_status \<and> \<not> truthy err \<and> j = json
         | Inl e \<Rightarrow>
             (\<not> good_status \<or> truthy err)
             \<and> e = APIError resp (Some json) (Some (JStr ''Failed to export battle'')))"

subsection \<open>The hazard level of a team contest, as the spec tabulates it\<close>

text \<open>
  The spec's table of increments by player count and by how the eggs delivered in the
  wave before compare with its quota (twice the quota, one and a half times, less), and
  the recursion the spec describes over the waves of the session: 60 for the first wave,
  the value before plus the increment for each later one.
\<close>

definition spec_increment :: "nat \<Rightarrow> int \<Rightarrow> int \<Rightarrow> int" where
  "spec_increment num_players quota delivered =
     (let double = (delivered \<ge> 2 * quota); half = (2 * delivered \<ge> 3 * quota) in
      if num_players = 4 then (if double then 60 else if half then 30 else 0)
      else if num_players = 3 then (if double then 40 else if half then 20 else 0)
      else if num_players = 2 then (if double then 20 else if half then 5 else 0)
      else if num_players = 1 then (if double then 10 else if half then 5 else 0)
      else 0)"

fun spec_hazard :: "nat \<Rightarrow> WaveResult list \<Rightarrow> nat \<Rightarrow> int" where
  "spec_hazard num_players ws 0 = 60"
| "spec_hazard num_players ws (Suc i) =
     spec_hazard num_players ws i
     + spec_increment num_players (deliverNorm (ws ! i)) (teamDeliverCount (ws ! i))"

section \<open>Properties\<close>

subsection \<open>Auxiliary facts\<close>

lemma io_bind_Inr:
  "io_bind m f s = (Inr y, s') \<longleftrightarrow> (\<exists>x s1. m s = (Inr x, s1) \<and> f x s1 = (Inr y, s'))"
  by (auto simp: io_bind_def split: prod.splits sum.splits)

lemma io_return_apply [simp]: "io_return x s = (Inr x, s)"
  by (simp add: io_return_def)

lemma io_raise_apply [simp]: "io_raise e s = (Inl e, s)"
  by (simp add: io_raise_def)

lemma io_of_Inr: "io_of r s = (Inr x, s') \<longleftrightarrow> r = Inr x \<and> s' = s"
  by (auto simp: io_of_def split: sum.splits)

lemma io_map_length: "io_map f xs s = (Inr ys, s') \<Longrightarrow> length ys = length xs"
proof (induction xs arbitrary: ys s s')
  case Nil
  then show ?case by simp
next
  case (Cons x xs)
  then show ?case by (auto simp: io_bind_Inr)
qed

lemma sum_map_length: "sum_map f xs = Inr ys \<Longrightarrow> length ys = length xs"
  by (induction xs arbitrary: ys) (auto split: sum.splits)

lemma sum_map_nth: "sum_map f xs = Inr ys \<Longrightarrow> i < length xs \<Longrightarrow> f (xs ! i) = Inr (ys ! i)"
proof (induction xs arbitrary: ys i)
  case Nil
  then show ?case by simp
next
  case (Cons x xs)
  then show ?case by (cases i) (auto split: sum.splits)
qed

text \<open>The definitions that running an example unfolds.\<close>

lemmas example_defs = example_ext_def example_state_def example_env_def example_special_def
  example_player_def example_wave_def example_coop_def example_mapped_player_def

lemmas eval_defs = example_defs mapCoop_def mapCoopPlayer_def mapWave_def mapSpecial_def
  io_bind_def io_of_def io_return_def io_raise_def coopResult_def Let_def yes_no_def
  disconnected_def exec_hash.simps is_word_def isRandom_def RANDOM_FILENAME_def clearWaves_def
  maxWaves_def parseInt_def is_digit10_def digit_value_def hex_digits_def toString_def
  toString_radix_def to_radix.simps digit_char_def

subsection \<open>Products of doubles\<close>

text \<open>The binade of a positive number is found by halving and doubling.\<close>

lemma binade_code [code]:
  "binade x = (if x \<le> 0 then 0
               else if 2 \<le> x then binade (x / 2) + 1
               else if x < 1 then binade (x * 2) - 1
               else 0)"
proof -
  have a: "\<lfloor>log 2 (x / 2)\<rfloor> + 1 = \<lfloor>log 2 x\<rfloor>" if "0 < x"
  proof -
    have "log 2 (x / 2) = log 2 x - 1" using that by (simp add: log_divide)
    then show ?thesis by simp
  qed
  have b: "\<lfloor>log 2 (x * 2)\<rfloor> - 1 = \<lfloor>log 2 x\<rfloor>" if "0 < x"
  proof -
    have "log 2 (x * 2) = log 2 x + 1" using that by (simp add: log_mult)
    then show ?thesis by simp
  qed
  have c: "\<lfloor>log 2 x\<rfloor> = 0" if "1 \<le> x" "x < 2"
    using that by (simp add: floor_log_eq_powr_iff)
  show ?thesis using a b c by (auto simp: binade_def)
qed

lemma binade_bounds:
  assumes "0 < x"
  shows "2 powi binade x \<le> x" "x < 2 powi (binade x + 1)"
proof -
  have "\<lfloor>log 2 x\<rfloor> = binade x" using assms by (simp add: binade_def)
  then have "2 powr (real_of_int (binade x)) \<le> x
             \<and> x < 2 powr (real_of_int (binade x + 1))"
    using assms floor_log_eq_powr_iff[of x 2 "binade x"] by simp
  moreover have "(2::real) powr (real_of_int k) = 2 powi k" for k
    by (simp add: powr_real_of_int')
  ultimately show "2 powi binade x \<le> x" "x < 2 powi (binade x + 1)"
    by (simp_all only:)
qed

lemma round_ties_even_error: "\<bar>of_int (round_ties_even z) - z\<bar> \<le> 1 / 2"
  unfolding round_ties_even_def Let_def by (auto; linarith)

text \<open>Rounding to a double moves a number by at most half the spacing of its binade.\<close>

lemma double_round_error:
  "\<bar>double_round x - x\<bar> \<le> 2 powi (max (binade \<bar>x\<bar>) (- 1022) - 53)"
proof (cases "x = 0")
  case True
  then show ?thesis by (simp add: double_round_def)
next
  case False
  define e where "e = max (binade \<bar>x\<bar>) (- 1022)"
  define ulp :: real where "ulp = 2 powi (e - 52)"
  have pos: "0 < ulp" by (simp add: ulp_def)
  have "double_round x - x = ulp * (of_int (round_ties_even (x / ulp)) - x / ulp)"
    using False pos by (simp add: double_round_def e_def ulp_def Let_def algebra_simps)
  then have "\<bar>double_round x - x\<bar> = ulp * \<bar>of_int (round_ties_even (x / ulp)) - x / ulp\<bar>"
    using pos by (simp add: abs_mult)
  also have "\<dots> \<le> ulp * (1 / 2)"
    using round_ties_even_error[of "x / ulp"] pos by (intro mult_left_mono) simp_all
  also have "ulp * (1 / 2) = 2 powi (e - 53)"
    by (simp add: ulp_def power_int_diff)
  finally show ?thesis by (simp add: e_def)
qed

lemma double_round_close:
  assumes "\<bar>x\<bar> < 256"
  shows "\<bar>double_round x - x\<bar> \<le> 1 / 4"
proof -
  have "binade \<bar>x\<bar> \<le> 7"
  proof (cases "x = 0")
    case True
    then show ?thesis by (simp add: binade_def)
  next
    case False
    then have "0 < \<bar>x\<bar>" by simp
    from binade_bounds(1)[OF this] assms have "(2::real) powi binade \<bar>x\<bar> < 2 powi 8" by simp
    then have "binade \<bar>x\<bar> < 8" by (rule power_int_le_imp_less_exp[rotated]) simp_all
    then show ?thesis by simp
  qed
  then have "max (binade \<bar>x\<bar>) (- 1022) - 53 \<le> - 2" by simp
  then have "(2::real) powi (max (binade \<bar>x\<bar>) (- 1022) - 53) \<le> 2 powi (- 2)"
    by (intro power_int_increasing) simp_all
  also have "(2::real) powi (- 2) = 1 / 4" by (simp add: power_int_minus)
  finally show ?thesis using double_round_error[of x] by linarith
qed

text \<open>
  Two products the examples below meet: the double \<^verbatim>\<open>2.18\<close> times 100 is the double
  \<^verbatim>\<open>218.00000000000003\<close>, not 218; and the double \<^verbatim>\<open>0.00196078431372549\<close> times 255 is
  \<^verbatim>\<open>0.5\<close>, though the exact product is less.
\<close>

lemma dmul_examples:
  "dmul (4908923593833841 / 2251799813685248) 100 = 7670193115365377 / 35184372088832"
  "dmul (4908923593833841 / 2251799813685248) 100 \<noteq> 4908923593833841 / 2251799813685248 * 100"
  "dmul (282578800148737 / 144115188075855872) 255 = 1 / 2"
  "282578800148737 / 144115188075855872 * 255 < (1 / 2 :: real)"
  by code_simp+

subsection \<open>Team colours are eight hexadecimal digits that decode to the components\<close>

lemma hex_digit_value_digit_char: "d < 16 \<Longrightarrow> hex_digit_value (digit_char d) = Some d"
proof -
  have "\<forall>d \<in> set [0 ..< 16]. hex_digit_value (digit_char d) = Some d"
    by code_simp
  then show "d < 16 \<Longrightarrow> hex_digit_value (digit_char d) = Some d"
    by simp
qed

lemma to_radix16_byte:
  "n < 256 \<Longrightarrow>
   padStart 2 (CHR ''0'') (to_radix 16 n) = [digit_char (n div 16), digit_char (n mod 16)]"
proof (cases "n < 16")
  case True
  then have "to_radix 16 n = [digit_char n]" by (simp add: to_radix.simps)
  moreover have "digit_char 0 = CHR ''0''" by (simp add: digit_char_def hex_digits_def)
  ultimately show ?thesis using True by (simp add: padStart_def)
next
  case False
  assume "n < 256"
  then have "n div 16 < 16" by simp
  then have "to_radix 16 (n div 16) = [digit_char (n div 16)]" by (simp add: to_radix.simps)
  then have "to_radix 16 n = [digit_char (n div 16), digit_char (n mod 16)]"
    using False by (subst to_radix.simps) simp
  then show ?thesis by (simp add: padStart_def)
qed

lemma decode_hex_pair:
  "a < 16 \<Longrightarrow> b < 16 \<Longrightarrow> decode_hex [digit_char a, digit_char b] = Some (16 * a + b)"
  by (simp add: decode_hex_def hex_digit_value_digit_char)

text \<open>
  \<^verbatim>\<open>Math.round\<close> of any value within 1/4 of \<open>x * 255\<close>, for \<open>x\<close> between 0 and 1, lies
  between 0 and 255 and, divided by 255, within 1/255 of \<open>x\<close>. The double product
  \<^verbatim>\<open>i * 255\<close> is such a value.
\<close>

lemma Math_round_stable:
  assumes "0 \<le> x" "x \<le> 1" "\<bar>p - x * 255\<bar> \<le> 1 / 4"
  shows "0 \<le> Math_round p \<and> Math_round p \<le> 255
       \<and> \<bar>real_of_int (Math_round p) / 255 - x\<bar> \<le> 1 / 255"
proof -
  let ?n = "Math_round p"
  have lo: "real_of_int ?n \<le> p + 1 / 2" unfolding Math_round_def by linarith
  have hi: "p + 1 / 2 < real_of_int ?n + 1" unfolding Math_round_def by linarith
  have p: "x * 255 - 1 / 4 \<le> p" "p \<le> x * 255 + 1 / 4" using assms(3) by linarith+
  have "0 \<le> ?n" using assms p hi by linarith
  moreover have "real_of_int ?n \<le> 255 + 3 / 4" using lo assms p by linarith
  then have "?n \<le> 255" by linarith
  moreover have "\<bar>real_of_int ?n / 255 - x\<bar> \<le> 1 / 255" using lo hi p by (simp add: field_simps)
  ultimately show ?thesis by blast
qed

lemma dmul_255_close:
  assumes "0 \<le> x" "x \<le> 1"
  shows "\<bar>dmul x 255 - x * 255\<bar> \<le> 1 / 4"
proof -
  have "\<bar>x * 255\<bar> < 256" using assms by (simp add: abs_if)
  from double_round_close[OF this] show ?thesis by (simp add: dmul_def)
qed

lemma float2hex_unit:
  assumes "0 \<le> x" "x \<le> 1"
  defines "n \<equiv> nat (Math_round (dmul x 255))"
  shows "float2hex x = [digit_char (n div 16), digit_char (n mod 16)]"
    and "n \<le> 255" and "\<bar>real n / 255 - x\<bar> \<le> 1 / 255"
proof -
  have r: "0 \<le> Math_round (dmul x 255)" "Math_round (dmul x 255) \<le> 255"
    "\<bar>real_of_int (Math_round (dmul x 255)) / 255 - x\<bar> \<le> 1 / 255"
    using Math_round_stable[OF assms(1,2) dmul_255_close[OF assms(1,2)]] by blast+
  show le: "n \<le> 255" using r by (simp add: n_def)
  have "toString_radix 16 (Math_round (dmul x 255)) = to_radix 16 n"
    using r by (simp add: toString_radix_def n_def)
  then show "float2hex x = [digit_char (n div 16), digit_char (n mod 16)]"
    using le to_radix16_byte[of n] by (simp add: float2hex_def)
  have "real n = real_of_int (Math_round (dmul x 255))" using r by (simp add: n_def)
  then show "\<bar>real n / 255 - x\<bar> \<le> 1 / 255" using r(3) by simp
qed

lemma is_hex_digit_char: "d < 16 \<Longrightarrow> is_hex_digit (digit_char d)"
  by (simp add: is_hex_digit_def hex_digit_value_digit_char)

text \<open>
  Claim C9. For a colour whose four components lie between 0 and 1, \<^const>\<open>mapColor\<close>
  returns eight hexadecimal digits; the first two, read back, give a number of at most
  255 that, divided by 255, is within 1/255 of the red component, and likewise the next
  two for green, the next two for blue and the last two for alpha. The products with 255
  are the rounded products of doubles.
\<close>

theorem mapColor_roundtrip:
  assumes "0 \<le> color_r c" "color_r c \<le> 1" "0 \<le> color_g c" "color_g c \<le> 1"
    and "0 \<le> color_b c" "color_b c \<le> 1" "0 \<le> color_a c" "color_a c \<le> 1"
  shows "length (mapColor c) = 8 \<and> (\<forall>ch \<in> set (mapColor c). is_hex_digit ch)
       \<and> (\<exists>n. decode_hex (channel 0 (mapColor c)) = Some n \<and> n \<le> 255
               \<and> \<bar>real n / 255 - color_r c\<bar> \<le> 1 / 255)
       \<and> (\<exists>n. decode_hex (channel 1 (mapColor c)) = Some n \<and> n \<le> 255
               \<and> \<bar>real n / 255 - color_g c\<bar> \<le> 1 / 255)
       \<and> (\<exists>n. decode_hex (channel 2 (mapColor c)) = Some n \<and> n \<le> 255
               \<and> \<bar>real n / 255 - color_b c\<bar> \<le> 1 / 255)
       \<and> (\<exists>n. decode_hex (channel 3 (mapColor c)) = Some n \<and> n \<le> 255
               \<and> \<bar>real n / 255 - color_a c\<bar> \<le> 1 / 255)"
proof -
  define n where "n = (\<lambda>x::real. nat (Math_round (dmul x 255)))"
  have f: "float2hex x = [digit_char (n x div 16), digit_char (n x mod 16)]"
    and le: "n x \<le> 255"
    and close: "\<bar>real (n x) / 255 - x\<bar> \<le> 1 / 255" if "0 \<le> x" "x \<le> 1" for x
    using float2hex_unit[OF that] by (simp_all add: n_def)
  note fr = f[OF assms(1,2)] and fg = f[OF assms(3,4)] and fb = f[OF assms(5,6)]
    and fa = f[OF assms(7,8)]
  have m4: "mapColor c = float2hex (color_r c) @ float2hex (color_g c)
                         @ float2hex (color_b c) @ float2hex (color_a c)"
    by (simp add: mapColor_def nums_def)
  have len: "length (mapColor c) = 8"
    unfolding m4 fr fg fb fa by simp
  have hex: "\<forall>ch \<in> set (mapColor c). is_hex_digit ch"
    unfolding m4 fr fg fb fa
    using le[OF assms(1,2)] le[OF assms(3,4)] le[OF assms(5,6)] le[OF assms(7,8)]
    by (simp add: is_hex_digit_char)
  have ch: "channel 0 (mapColor c) = float2hex (color_r c)"
    "channel 1 (mapColor c) = float2hex (color_g c)"
    "channel 2 (mapColor c) = float2hex (color_b c)"
    "channel 3 (mapColor c) = float2hex (color_a c)"
    unfolding m4 by (simp_all add: fr fg fb fa channel_def)
  have dec: "\<exists>m. decode_hex (float2hex x) = Some m \<and> m \<le> 255 \<and> \<bar>real m / 255 - x\<bar> \<le> 1 / 255"
    if "0 \<le> x" "x \<le> 1" for x
  proof -
    have "decode_hex (float2hex x) = Some (16 * (n x div 16) + n x mod 16)"
      using f[OF that] le[OF that] by (simp add: decode_hex_pair)
    then have "decode_hex (float2hex x) = Some (n x)" by simp
    then show ?thesis using le[OF that] close[OF that] by blast
  qed
  show ?thesis
    unfolding ch
    using len hex dec[OF assms(1,2)] dec[OF assms(3,4)] dec[OF assms(5,6)] dec[OF assms(7,8)]
    unfolding ch by blast
qed

text \<open>
  A colour with four different components, blue at a tie of \<^verbatim>\<open>Math.round\<close> and alpha
  at a tie that only the rounding of the product makes.
\<close>

theorem mapColor_roundtrip_witness:
  "0 \<le> color_r example_color \<and> color_r example_color \<le> 1
   \<and> 0 \<le> color_g example_color \<and> color_g example_color \<le> 1
   \<and> 0 \<le> color_b example_color \<and> color_b example_color \<le> 1
   \<and> 0 \<le> color_a example_color \<and> color_a example_color \<le> 1
   \<and> mapColor example_color = ''ff008001''
   \<and> length (mapColor example_color) = 8
   \<and> decode_hex (channel 0 (mapColor example_color)) = Some 255
   \<and> decode_hex (channel 1 (mapColor example_color)) = Some 0
   \<and> decode_hex (channel 2 (mapColor example_color)) = Some 128
   \<and> decode_hex (channel 3 (mapColor example_color)) = Some 1"
proof -
  have unit: "0 \<le> color_r example_color" "color_r example_color \<le> 1"
    "0 \<le> color_g example_color" "color_g example_color \<le> 1"
    "0 \<le> color_b example_color" "color_b example_color \<le> 1"
    "0 \<le> color_a example_color" "color_a example_color \<le> 1"
    by (simp_all add: example_color_def)
  have run: "mapColor example_color = ''ff008001''"
    by code_simp
  have dec: "decode_hex (channel 0 ''ff008001'') = Some 255"
    "decode_hex (channel 1 ''ff008001'') = Some 0"
    "decode_hex (channel 2 ''ff008001'') = Some 128"
    "decode_hex (channel 3 ''ff008001'') = Some 1"
    by code_simp+
  from mapColor_roundtrip[OF unit] unit run dec show ?thesis
    by simp
qed

subsection \<open>Salmon Run players\<close>

lemma mapCoopPlayer_Inr:
  "mapCoopPlayer env ext me r s = (Inr p, s') \<Longrightarrow> cp_disconnected p = yes_no (disconnected r)"
  by (auto simp: mapCoopPlayer_def io_bind_Inr)

text \<open>
  Claim C1, as the code has it. A mapped player is marked disconnected exactly when all
  of \<^verbatim>\<open>goldenDeliverCount\<close>, \<^verbatim>\<open>deliverCount\<close>, \<^verbatim>\<open>rescueCount\<close>, \<^verbatim>\<open>rescuedCount\<close> and
  \<^verbatim>\<open>defeatEnemyCount\<close> are zero, or no special weapon was recorded: either condition is
  enough, and otherwise the flag is \<^verbatim>\<open>no\<close>.
\<close>

theorem mapCoopPlayer_disconnected:
  assumes "mapCoopPlayer env ext me r s = (Inr p, s')"
  shows "(cp_disconnected p = ''yes'' \<longleftrightarrow>
            (goldenDeliverCount r = 0 \<and> deliverCount r = 0 \<and> rescueCount r = 0
               \<and> rescuedCount r = 0 \<and> defeatEnemyCount r = 0)
            \<or> specialWeapon r = None)
       \<and> (cp_disconnected p = ''no'' \<longleftrightarrow> cp_disconnected p \<noteq> ''yes'')"
  using mapCoopPlayer_Inr[OF assms] by (auto simp: yes_no_def disconnected_def)

theorem mapCoopPlayer_disconnected_witness:
  "mapCoopPlayer example_env example_ext False (example_player 7 (Some example_special))
     example_state
     = (Inr (example_mapped_player ''no'' 7 (Some ''nicedama'') ''no''), example_state)
   \<and> cp_disconnected (example_mapped_player ''no'' 7 (Some ''nicedama'') ''no'') \<noteq> ''yes''
   \<and> specialWeapon (example_player 7 (Some example_special)) \<noteq> None
   \<and> goldenDeliverCount (example_player 7 (Some example_special)) \<noteq> 0"
proof -
  have run: "mapCoopPlayer example_env example_ext False
               (example_player 7 (Some example_special)) example_state
             = (Inr (example_mapped_player ''no'' 7 (Some ''nicedama'') ''no''), example_state)"
    by (simp add: eval_defs)
  from mapCoopPlayer_disconnected[OF run] run show ?thesis
    by (simp add: example_player_def)
qed

text \<open>
  The claim as the spec words it asks for both conditions at once. A player who delivered
  five golden eggs and has no special weapon recorded is marked disconnected.
\<close>

theorem disconnected_without_special_counterexample:
  "map_sum id cp_disconnected
     (fst (mapCoopPlayer example_env example_ext False (example_player 5 None) example_state))
     = Inr ''yes''
   \<and> goldenDeliverCount (example_player 5 None) = 5"
  by (simp add: eval_defs)

subsection \<open>Salmon Run sessions\<close>

lemma mapCoop_Inr:
  assumes "mapCoop env ext info s = (Inr body, s')"
  shows "\<exists>ws ps. sum_map (mapWave ext) (waveResults (coop_detail info)) = Inr ws
     \<and> io_map (\<lambda>(me, r). mapCoopPlayer env ext me r)
          ((True, myResult (coop_detail info)) # map (Pair False) (memberResults (coop_detail info))) s = (Inr ps, s')
     \<and> body = (if coop_rule (coop_detail info) = ''TEAM_CONTEST''
               then (coopResult ext info ws ps)\<lparr>waves := danger_loop (length ps) None ws\<rparr>
               else coopResult ext info ws ps)"
  using assms unfolding mapCoop_def Let_def io_bind_Inr io_of_Inr
  by (auto simp: coopResult_def Let_def split: if_splits)

lemma mapCoop_titles:
  assumes "mapCoop env ext info s = (Inr body, s')"
  shows "clear_waves body = clearWaves (coop_detail info)"
    and "title_after body = map_option (\<lambda>i. toString (b64Number ext i)) (afterGrade_id (coop_detail info))"
    and "title_exp_after body = afterGradePoint (coop_detail info)"
    and "(title_before body, title_exp_before body)
           = titleBefore ext (gradeBefore info) (title_after body) (title_exp_after body) (clear_waves body)"
  using mapCoop_Inr[OF assms] by (auto simp: coopResult_def Let_def)

text \<open>
  Claim C3, as the code has it. The cleared waves are the waves numbered up to the
  maximum, less one, plus one when \<^verbatim>\<open>resultWave\<close> is 0: waves 1, 2, 3 with
  \<^verbatim>\<open>resultWave = 0\<close> give 3, and waves 1, 2 with \<^verbatim>\<open>resultWave = 3\<close> give 1,
  whatever the rule.
\<close>

theorem mapCoop_clear_waves_examples:
  assumes "mapCoop env ext info s = (Inr body, s')"
  shows "(map waveNumber (waveResults (coop_detail info)) = [1, 2, 3]
            \<and> resultWave (coop_detail info) = 0 \<longrightarrow> clear_waves body = 3)
       \<and> (map waveNumber (waveResults (coop_detail info)) = [1, 2]
            \<and> resultWave (coop_detail info) = 3 \<longrightarrow> clear_waves body = 1)"
proof -
  let ?d = "coop_detail info"
  have len: "length (filter (\<lambda>i. waveNumber i < maxWaves ?d + 1) (waveResults ?d))
        = length (filter (\<lambda>n. n < maxWaves ?d + 1) (map waveNumber (waveResults ?d)))"
    by (simp add: filter_map o_def)
  have nonempty: "map waveNumber (waveResults ?d) = ns \<Longrightarrow> ns \<noteq> [] \<Longrightarrow> waveResults ?d \<noteq> []" for ns
    by auto
  show ?thesis
    unfolding mapCoop_titles(1)[OF assms] clearWaves_def len
    by (auto simp: maxWaves_def dest: nonempty)
qed

theorem mapCoop_clear_waves_examples_witness:
  "map_sum id clear_waves (fst (mapCoop example_env example_ext
       (example_coop ''REGULAR'' 0 [example_wave 1 10 12, example_wave 2 10 12, example_wave 3 10 12] [])
       example_state)) = Inr 3
   \<and> map_sum id clear_waves (fst (mapCoop example_env example_ext
       (example_coop ''REGULAR'' 3 [example_wave 1 10 12, example_wave 2 10 12] [])
       example_state)) = Inr 1"
proof -
  let ?a = "example_coop ''REGULAR'' 0 [example_wave 1 10 12, example_wave 2 10 12, example_wave 3 10 12] []"
  let ?b = "example_coop ''REGULAR'' 3 [example_wave 1 10 12, example_wave 2 10 12] []"
  obtain ba sa where ra: "mapCoop example_env example_ext ?a example_state = (Inr ba, sa)"
    by (simp add: eval_defs)
  obtain bb sb where rb: "mapCoop example_env example_ext ?b example_state = (Inr bb, sb)"
    by (simp add: eval_defs)
  have "clear_waves ba = 3"
    using mapCoop_clear_waves_examples[OF ra] by (simp add: example_coop_def example_wave_def)
  moreover have "clear_waves bb = 1"
    using mapCoop_clear_waves_examples[OF rb] by (simp add: example_coop_def example_wave_def)
  ultimately show ?thesis using ra rb by simp
qed

text \<open>The spec gives 2 for the second session; the code returns 1.\<close>

theorem clear_waves_two_waves_counterexample:
  "map_sum id clear_waves (fst (mapCoop example_env example_ext
       (example_coop ''REGULAR'' 3 [example_wave 1 10 12, example_wave 2 10 12] [])
       example_state)) = Inr 1"
  by (simp add: eval_defs)

text \<open>
  Claim C2, as the code has it. Without \<^verbatim>\<open>gradeBefore\<close>, with the title and the points
  after the shift and the points of the cleared waves known: when the points after are
  40 and the waves were worth +20, or were worth less than 0 and the title after is not
  \<^verbatim>\<open>"8"\<close>, the title before and the points before are both left unset. Title 5 with 40
  points after one cleared wave is such a session.
\<close>

theorem mapCoop_title_before_unset:
  assumes "mapCoop env ext info s = (Inr body, s')"
    and "gradeBefore info = None"
    and "title_after body = Some ta"
    and "title_exp_after body = Some 40"
    and "COOP_POINT_MAP (clear_waves body) = Some delta"
    and "delta = 20 \<or> (delta < 0 \<and> ta \<noteq> ''8'')"
  shows "title_before body = None \<and> title_exp_before body = None"
proof -
  have "titleBefore ext None (Some ta) (Some 40) (clear_waves body) = (None, None)"
    using assms(5,6) by (auto simp: titleBefore_def)
  with mapCoop_titles(4)[OF assms(1)] assms(2,3,4) show ?thesis by simp
qed

theorem mapCoop_title_before_unset_witness:
  "map_sum id title_after (fst (mapCoop example_env example_ext
       (example_coop ''REGULAR'' 2 [example_wave 1 10 12, example_wave 2 10 8] [])
       example_state)) = Inr (Some ''5'')
   \<and> map_sum id clear_waves (fst (mapCoop example_env example_ext
       (example_coop ''REGULAR'' 2 [example_wave 1 10 12, example_wave 2 10 8] [])
       example_state)) = Inr 1
   \<and> COOP_POINT_MAP 1 = Some (- 10)
   \<and> map_sum id title_before (fst (mapCoop example_env example_ext
       (example_coop ''REGULAR'' 2 [example_wave 1 10 12, example_wave 2 10 8] [])
       example_state)) = Inr None
   \<and> map_sum id clear_waves (fst (mapCoop example_env example_ext
       (example_coop ''REGULAR'' 0 [example_wave 1 10 12, example_wave 2 10 12, example_wave 3 10 12] [])
       example_state)) = Inr 3
   \<and> COOP_POINT_MAP 3 = Some 20
   \<and> map_sum id title_before (fst (mapCoop example_env example_ext
       (example_coop ''REGULAR'' 0 [example_wave 1 10 12, example_wave 2 10 12, example_wave 3 10 12] [])
       example_state)) = Inr None"
proof -
  let ?a = "example_coop ''REGULAR'' 2 [example_wave 1 10 12, example_wave 2 10 8] []"
  let ?c = "example_coop ''REGULAR'' 0
              [example_wave 1 10 12, example_wave 2 10 12, example_wave 3 10 12] []"
  obtain b sa where run: "mapCoop example_env example_ext ?a example_state = (Inr b, sa)"
    and ta: "title_after b = Some ''5''" and tea: "title_exp_after b = Some 40"
    and cw: "clear_waves b = 1"
    by (simp add: eval_defs)
  obtain c sc where run_c: "mapCoop example_env example_ext ?c example_state = (Inr c, sc)"
    and ta_c: "title_after c = Some ''5''" and tea_c: "title_exp_after c = Some 40"
    and cw_c: "clear_waves c = 3"
    by (simp add: eval_defs)
  have d: "COOP_POINT_MAP (clear_waves b) = Some (- 10)"
    by (simp add: cw COOP_POINT_MAP_def)
  have d_c: "COOP_POINT_MAP (clear_waves c) = Some 20"
    by (simp add: cw_c COOP_POINT_MAP_def)
  have "title_before b = None \<and> title_exp_before b = None"
    by (rule mapCoop_title_before_unset[OF run _ ta tea d]) (simp_all add: example_coop_def)
  moreover have "title_before c = None \<and> title_exp_before c = None"
    by (rule mapCoop_title_before_unset[OF run_c _ ta_c tea_c d_c]) (simp_all add: example_coop_def)
  ultimately show ?thesis using run ta cw run_c cw_c by (simp add: COOP_POINT_MAP_def)
qed

text \<open>
  The spec's example: title 5 and 40 points after one cleared wave. The spec gives the
  title before as 5 and the points before as 50; the code leaves both unset.
\<close>

theorem title_before_band_40_counterexample:
  "map_sum id title_before (fst (mapCoop example_env example_ext
       (example_coop ''REGULAR'' 2 [example_wave 1 10 12, example_wave 2 10 8] [])
       example_state)) = Inr None
   \<and> map_sum id title_exp_before (fst (mapCoop example_env example_ext
       (example_coop ''REGULAR'' 2 [example_wave 1 10 12, example_wave 2 10 8] [])
       example_state)) = Inr None
   \<and> map_sum id title_after (fst (mapCoop example_env example_ext
       (example_coop ''REGULAR'' 2 [example_wave 1 10 12, example_wave 2 10 8] [])
       example_state)) = Inr (Some ''5'')
   \<and> map_sum id title_exp_after (fst (mapCoop example_env example_ext
       (example_coop ''REGULAR'' 2 [example_wave 1 10 12, example_wave 2 10 8] [])
       example_state)) = Inr (Some 40)
   \<and> map_sum id clear_waves (fst (mapCoop example_env example_ext
       (example_coop ''REGULAR'' 2 [example_wave 1 10 12, example_wave 2 10 8] [])
       example_state)) = Inr 1"
  by (simp add: eval_defs titleBefore_def COOP_POINT_MAP_def)

lemma half_again_iff: "real_of_int delivered \<ge> real_of_int quota * 1.5 \<longleftrightarrow> 2 * delivered \<ge> 3 * quota"
proof -
  have "real_of_int delivered \<ge> real_of_int quota * 1.5
        \<longleftrightarrow> real_of_int (2 * delivered) \<ge> real_of_int (3 * quota)"
    by (simp add: field_simps)
  then show ?thesis by (simp only: of_int_le_iff)
qed

lemma added_percent_spec: "added_percent n quota delivered = spec_increment n quota delivered"
  by (simp add: added_percent_def spec_increment_def half_again_iff Let_def mult.commute)

lemma danger_loop_length: "length (danger_loop n lw ws) = length ws"
  by (induction ws arbitrary: lw) (simp_all add: Let_def)

lemma danger_loop_quota:
  "i < length ws \<Longrightarrow>
   golden_quota (danger_loop n lw ws ! i) = golden_quota (ws ! i)
   \<and> golden_delivered (danger_loop n lw ws ! i) = golden_delivered (ws ! i)"
proof (induction ws arbitrary: lw i)
  case Nil then show ?case by simp
next
  case (Cons w ws)
  then show ?case by (cases i) (simp_all add: Let_def)
qed

lemma danger_loop_first:
  "ws \<noteq> [] \<Longrightarrow> danger_rate (danger_loop n None ws ! 0) = Some 60"
  by (cases ws) (simp_all add: Let_def)

lemma danger_loop_step:
  "Suc i < length ws \<Longrightarrow>
   \<exists>prev. danger_rate (danger_loop n lw ws ! i) = Some prev
      \<and> danger_rate (danger_loop n lw ws ! Suc i)
          = Some (prev + added_percent n (golden_quota (ws ! i)) (golden_delivered (ws ! i)))"
proof (induction ws arbitrary: lw i)
  case Nil then show ?case by simp
next
  case (Cons w ws)
  show ?case
  proof (cases i)
    case 0
    with Cons.prems obtain v vs where "ws = v # vs" by (cases ws) auto
    with 0 show ?thesis by (simp add: Let_def)
  next
    case (Suc j)
    with Cons.prems have "Suc j < length ws" by simp
    from Cons.IH[OF this] Suc show ?thesis by (simp add: Let_def)
  qed
qed

lemma danger_loop_hazard:
  assumes "\<forall>j < length ws. golden_quota (ws ! j) = deliverNorm (src ! j)
              \<and> golden_delivered (ws ! j) = teamDeliverCount (src ! j)"
  shows "i < length ws \<Longrightarrow> danger_rate (danger_loop n None ws ! i) = Some (spec_hazard n src i)"
proof (induction i)
  case 0
  then show ?case using danger_loop_first[of ws n] by auto
next
  case (Suc i)
  then have "i < length ws" by simp
  with Suc danger_loop_step[OF Suc.prems, of n None] assms show ?case
    by (auto simp: added_percent_spec)
qed

lemma mapWave_Inr:
  "mapWave ext w = Inr sw \<Longrightarrow>
   golden_quota sw = deliverNorm w \<and> golden_delivered sw = teamDeliverCount w \<and> danger_rate sw = None"
  by (auto simp: mapWave_def split: sum.splits)

text \<open>
  Claim C5. In a team contest the waves of the body carry the hazard levels of the spec's
  recursion, computed for the number of mapped players (the player and the members) from
  the quota and the delivered eggs of each wave before; under any other rule every wave
  keeps \<^verbatim>\<open>null\<close> and the session's \<^verbatim>\<open>danger_rate\<close> is \<^verbatim>\<open>dangerRate * 100\<close>, the product of
  doubles.
\<close>

theorem mapCoop_danger_rate:
  assumes "mapCoop env ext info s = (Inr body, s')"
  shows "length (cb_players body) = 1 + length (memberResults (coop_detail info))
       \<and> length (waves body) = length (waveResults (coop_detail info))
       \<and> (coop_rule (coop_detail info) = ''TEAM_CONTEST'' \<longrightarrow>
            (\<forall>i < length (waves body).
               danger_rate (waves body ! i)
                 = Some (spec_hazard (length (cb_players body)) (waveResults (coop_detail info)) i)))
       \<and> (coop_rule (coop_detail info) \<noteq> ''TEAM_CONTEST'' \<longrightarrow>
            (\<forall>w \<in> set (waves body). danger_rate w = None)
            \<and> cb_danger_rate body = Some (dmul (dangerRate (coop_detail info)) 100))"
proof -
  let ?d = "coop_detail info"
  from mapCoop_Inr[OF assms] obtain ws ps where
    ws: "sum_map (mapWave ext) (waveResults ?d) = Inr ws"
    and ps: "io_map (\<lambda>(me, r). mapCoopPlayer env ext me r)
               ((True, myResult ?d) # map (Pair False) (memberResults ?d)) s = (Inr ps, s')"
    and body: "body = (if coop_rule ?d = ''TEAM_CONTEST''
                       then (coopResult ext info ws ps)\<lparr>waves := danger_loop (length ps) None ws\<rparr>
                       else coopResult ext info ws ps)"
    by blast
  have lps: "length ps = 1 + length (memberResults ?d)"
    using io_map_length[OF ps] by simp
  have lws: "length ws = length (waveResults ?d)"
    using sum_map_length[OF ws] .
  have each: "golden_quota (ws ! j) = deliverNorm (waveResults ?d ! j)
              \<and> golden_delivered (ws ! j) = teamDeliverCount (waveResults ?d ! j)
              \<and> danger_rate (ws ! j) = None" if "j < length ws" for j
    using sum_map_nth[OF ws, of j] that lws mapWave_Inr by auto
  have players: "cb_players body = ps"
    using body by (simp add: coopResult_def Let_def)
  have contest: "waves body = danger_loop (length ps) None ws" if "coop_rule ?d = ''TEAM_CONTEST''"
    using body that by simp
  have other: "waves body = ws \<and> cb_danger_rate body = Some (dmul (dangerRate ?d) 100)"
    if "coop_rule ?d \<noteq> ''TEAM_CONTEST''"
    using body that by (simp add: coopResult_def Let_def)
  have c1: "length (cb_players body) = 1 + length (memberResults ?d)"
    using players lps by simp
  have c2: "length (waves body) = length (waveResults ?d)"
    using contest other lws by (cases "coop_rule ?d = ''TEAM_CONTEST''") (simp_all add: danger_loop_length)
  have c3: "coop_rule ?d = ''TEAM_CONTEST'' \<longrightarrow>
            (\<forall>i < length (waves body).
               danger_rate (waves body ! i) = Some (spec_hazard (length (cb_players body)) (waveResults ?d) i))"
  proof (intro impI allI)
    fix i assume tc: "coop_rule ?d = ''TEAM_CONTEST''" and i: "i < length (waves body)"
    have "i < length ws" using i contest[OF tc] by (simp add: danger_loop_length)
    moreover have "\<forall>j < length ws. golden_quota (ws ! j) = deliverNorm (waveResults ?d ! j)
              \<and> golden_delivered (ws ! j) = teamDeliverCount (waveResults ?d ! j)"
      using each by blast
    ultimately show "danger_rate (waves body ! i) = Some (spec_hazard (length (cb_players body)) (waveResults ?d) i)"
      using danger_loop_hazard[of ws "waveResults ?d" i "length ps"] contest[OF tc] players by simp
  qed
  have c4: "coop_rule ?d \<noteq> ''TEAM_CONTEST'' \<longrightarrow>
            (\<forall>w \<in> set (waves body). danger_rate w = None)
            \<and> cb_danger_rate body = Some (dmul (dangerRate ?d) 100)"
  proof (intro impI conjI ballI)
    assume ntc: "coop_rule ?d \<noteq> ''TEAM_CONTEST''"
    show "cb_danger_rate body = Some (dmul (dangerRate ?d) 100)" using other[OF ntc] by simp
    fix w assume "w \<in> set (waves body)"
    then have "w \<in> set ws" using other[OF ntc] by simp
    then obtain j where "j < length ws" "ws ! j = w" by (auto simp: in_set_conv_nth)
    with each[of j] show "danger_rate w = None" by auto
  qed
  show ?thesis using c1 c2 c3 c4 by blast
qed

theorem mapCoop_danger_rate_witness:
  "map_sum id (map danger_rate \<circ> waves) (fst (mapCoop example_env example_ext
       (example_coop ''TEAM_CONTEST'' 3
          [example_wave 1 10 20, example_wave 2 10 15, example_wave 3 10 14]
          [example_player 0 None, example_player 0 None, example_player 0 None])
       example_state)) = Inr [Some 60, Some 120, Some 150]
   \<and> spec_hazard 4 [example_wave 1 10 20, example_wave 2 10 15, example_wave 3 10 14] 2 = 150
   \<and> map_sum id cb_danger_rate (fst (mapCoop example_env example_ext
       (example_coop ''REGULAR'' 0 [example_wave 1 10 20] []) example_state))
       = Inr (Some (7670193115365377 / 35184372088832))
   \<and> dangerRate (coop_detail (example_coop ''REGULAR'' 0 [example_wave 1 10 20] []))
       = 4908923593833841 / 2251799813685248
   \<and> dmul (4908923593833841 / 2251799813685248) 100 = 7670193115365377 / 35184372088832"
proof -
  let ?ws = "[example_wave 1 10 20, example_wave 2 10 15, example_wave 3 10 14]"
  let ?a = "example_coop ''TEAM_CONTEST'' 3 ?ws
              [example_player 0 None, example_player 0 None, example_player 0 None]"
  let ?b = "example_coop ''REGULAR'' 0 [example_wave 1 10 20] []"
  obtain ba sa where ra: "mapCoop example_env example_ext ?a example_state = (Inr ba, sa)"
    by (simp add: eval_defs)
  obtain bb sb where rb: "mapCoop example_env example_ext ?b example_state = (Inr bb, sb)"
    by (simp add: eval_defs)
  have rule_a: "coop_rule (coop_detail ?a) = ''TEAM_CONTEST''" "waveResults (coop_detail ?a) = ?ws"
    "length (memberResults (coop_detail ?a)) = 3"
    by (simp_all add: example_coop_def)
  have rule_b: "coop_rule (coop_detail ?b) \<noteq> ''TEAM_CONTEST''"
    "dangerRate (coop_detail ?b) = 4908923593833841 / 2251799813685248"
    by (simp_all add: example_coop_def)
  have hz: "spec_hazard 4 ?ws 0 = 60" "spec_hazard 4 ?ws 1 = 120" "spec_hazard 4 ?ws 2 = 150"
    by (simp_all add: eval_nat_numeral spec_increment_def example_wave_def)
  from mapCoop_danger_rate[OF ra] rule_a
  have n: "length (cb_players ba) = 4" and l: "length (waves ba) = 3"
    and r: "\<forall>i < length (waves ba). danger_rate (waves ba ! i) = Some (spec_hazard 4 ?ws i)"
    by simp_all
  have "map danger_rate (waves ba) = [Some 60, Some 120, Some 150]"
  proof -
    from l obtain x y z where w: "waves ba = [x, y, z]"
      by (auto simp: length_Suc_conv eval_nat_numeral)
    from r l have "danger_rate (waves ba ! 0) = Some (spec_hazard 4 ?ws 0)"
      "danger_rate (waves ba ! 1) = Some (spec_hazard 4 ?ws 1)"
      "danger_rate (waves ba ! 2) = Some (spec_hazard 4 ?ws 2)" by simp_all
    with w hz show ?thesis by simp
  qed
  moreover from mapCoop_danger_rate[OF rb] rule_b
  have "cb_danger_rate bb = Some (7670193115365377 / 35184372088832)"
    by (simp add: dmul_examples(1))
  ultimately show ?thesis using ra rb hz rule_b by (simp add: dmul_examples(1))
qed

subsection \<open>The filter of uploaded games and the list of UUIDs\<close>

lemma notExported_loop_filter:
  "notExported_loop ext uuid list out
     = out @ filter (\<lambda>gid. JStr (gameId ext gid) \<notin> set uuid \<and> JStr (s3siGameId ext gid) \<notin> set uuid
                          \<and> JStr (s3sCoopGameId ext gid) \<notin> set uuid) list"
  by (induction list arbitrary: out) (simp_all add: Let_def)

lemma fetch_apply:
  "fetch env req s = (Inr (server env (requests s) req), s\<lparr>requests := requests s @ [req]\<rparr>)"
  by (simp add: fetch_def)

lemma uuidList_state:
  "snd (uuidList env type s)
     = s\<lparr>requests := requests s @ [GET (if type = ''VsInfo''
                                         then statInk @ ''/api/v3/s3s/uuid-list''
                                         else statInk @ ''/api/v3/salmon/uuid-list'')]\<rparr>"
  by (simp add: uuidList_def io_bind_def fetch_apply checkResponse_def await_json_def io_of_def
      split: sum.splits option.splits prod.splits)

text \<open>
  Claim C6. Given the list of uploaded UUIDs that \<^verbatim>\<open>uuidList\<close> returns,
  \<^verbatim>\<open>notExported\<close> returns, in their order, exactly the candidate ids none of whose
  three UUIDs (\<^verbatim>\<open>gameId\<close>, \<^verbatim>\<open>s3siGameId\<close>, \<^verbatim>\<open>s3sCoopGameId\<close>) is in that list; the only
  change to the state is the one GET request of \<^verbatim>\<open>uuidList\<close>.
\<close>

theorem notExported_filter:
  assumes "uuidList env type s = (Inr uuid, s')"
  shows "notExported env ext type list s
           = (Inr (filter (\<lambda>gid. JStr (gameId ext gid) \<notin> set uuid
                               \<and> JStr (s3siGameId ext gid) \<notin> set uuid
                               \<and> JStr (s3sCoopGameId ext gid) \<notin> set uuid) list), s')
       \<and> s' = s\<lparr>requests := requests s @ [GET (if type = ''VsInfo''
                                                then statInk @ ''/api/v3/s3s/uuid-list''
                                                else statInk @ ''/api/v3/salmon/uuid-list'')]\<rparr>"
proof -
  have "s' = snd (uuidList env type s)" using assms by simp
  then have st: "s' = s\<lparr>requests := requests s @ [GET (if type = ''VsInfo''
                                                then statInk @ ''/api/v3/s3s/uuid-list''
                                                else statInk @ ''/api/v3/salmon/uuid-list'')]\<rparr>"
    by (simp only: uuidList_state)
  have "notExported env ext type list s
           = (Inr (filter (\<lambda>gid. JStr (gameId ext gid) \<notin> set uuid
                               \<and> JStr (s3siGameId ext gid) \<notin> set uuid
                               \<and> JStr (s3sCoopGameId ext gid) \<notin> set uuid) list), s')"
    using assms by (simp add: notExported_def io_bind_def notExported_loop_filter)
  with st show ?thesis by blast
qed

lemmas api_eval_defs = answering_def uuidList_def io_bind_def fetch_def checkResponse_def
  await_json_def io_of_def io_return_def io_raise_def get_prop_def statInk_def example_defs
  notExported_def Let_def post_def postBattle_def postCoop_def json_or_empty_def

theorem notExported_filter_witness:
  "fst (uuidList (answering \<lparr>status = 200, resp_json = Some (JArr [JStr ''a-g1'', JStr ''c-g3''])\<rparr>)
          ''CoopInfo'' example_state) = Inr [JStr ''a-g1'', JStr ''c-g3'']
   \<and> fst (notExported (answering \<lparr>status = 200, resp_json = Some (JArr [JStr ''a-g1'', JStr ''c-g3''])\<rparr>)
          example_ext ''CoopInfo'' [''g1'', ''g2'', ''g3''] example_state) = Inr [''g2'']"
proof -
  let ?env = "answering \<lparr>status = 200, resp_json = Some (JArr [JStr ''a-g1'', JStr ''c-g3''])\<rparr>"
  obtain s' where run: "uuidList ?env ''CoopInfo'' example_state = (Inr [JStr ''a-g1'', JStr ''c-g3''], s')"
    by (simp add: api_eval_defs)
  from notExported_filter[OF run, of example_ext "[''g1'', ''g2'', ''g3'']"] run
  show ?thesis by (simp add: example_ext_def)
qed

text \<open>
  Claim C10, as the code has it. \<^verbatim>\<open>uuidList\<close> returns only the array of a 2xx response
  whose body parses to an array, with its elements as they are. A 2xx response whose body
  parses to something that is neither an array nor \<^verbatim>\<open>null\<close> raises an \<^verbatim>\<open>APIError\<close>
  carrying the response, the body and the \<^verbatim>\<open>message\<close> property of the body.
\<close>

theorem uuidList_outcome:
  fixes env :: Env and type :: string and s :: ApiState
  defines "resp \<equiv> server env (requests s)
                     (GET (if type = ''VsInfo'' then statInk @ ''/api/v3/s3s/uuid-list''
                           else statInk @ ''/api/v3/salmon/uuid-list''))"
  shows "(\<forall>xs. fst (uuidList env type s) = Inr xs \<longrightarrow>
            status resp div 100 = 2 \<and> resp_json resp = Some (JArr xs))
       \<and> (\<forall>j. status resp div 100 = 2 \<and> resp_json resp = Some j \<and> \<not> isArray j \<and> j \<noteq> JNull \<longrightarrow>
            fst (uuidList env type s) = Inl (APIError resp (Some j) (own_prop j ''message'')))"
proof -
  have a: "fst (uuidList env type s) = Inr xs \<Longrightarrow>
           status resp div 100 = 2 \<and> resp_json resp = Some (JArr xs)" for xs
    unfolding resp_def
    by (auto simp: uuidList_def io_bind_def fetch_apply checkResponse_def await_json_def io_of_def
        get_prop_def split: if_splits option.splits json.splits sum.splits)
  have b: "status resp div 100 = 2 \<Longrightarrow> resp_json resp = Some j \<Longrightarrow> \<not> isArray j \<Longrightarrow> j \<noteq> JNull \<Longrightarrow>
           fst (uuidList env type s) = Inl (APIError resp (Some j) (own_prop j ''message''))" for j
    unfolding resp_def
    by (simp add: uuidList_def io_bind_def fetch_apply checkResponse_def await_json_def io_of_def
        get_prop_def)
  show ?thesis using a b by blast
qed

theorem uuidList_outcome_witness:
  "fst (uuidList (answering \<lparr>status = 200, resp_json = Some (JObj [(''message'', JStr ''Unauthorized'')])\<rparr>)
          ''VsInfo'' example_state)
     = Inl (APIError \<lparr>status = 200, resp_json = Some (JObj [(''message'', JStr ''Unauthorized'')])\<rparr>
              (Some (JObj [(''message'', JStr ''Unauthorized'')])) (Some (JStr ''Unauthorized'')))
   \<and> fst (uuidList (answering \<lparr>status = 200, resp_json = Some (JArr [JStr ''a-g1''])\<rparr>)
          ''VsInfo'' example_state) = Inr [JStr ''a-g1'']"
proof -
  let ?j = "JObj [(''message'', JStr ''Unauthorized'')]"
  let ?r = "\<lparr>status = 200, resp_json = Some ?j\<rparr>"
  have "server (answering ?r) (requests example_state)
          (GET (if ''VsInfo'' = ''VsInfo'' then statInk @ ''/api/v3/s3s/uuid-list''
                else statInk @ ''/api/v3/salmon/uuid-list'')) = ?r"
    by (simp add: answering_def)
  with uuidList_outcome[of "answering ?r" "''VsInfo''" example_state]
  have "fst (uuidList (answering ?r) ''VsInfo'' example_state)
          = Inl (APIError ?r (Some ?j) (own_prop ?j ''message''))"
    by simp
  moreover have "fst (uuidList (answering \<lparr>status = 200, resp_json = Some (JArr [JStr ''a-g1''])\<rparr>)
          ''VsInfo'' example_state) = Inr [JStr ''a-g1'']"
    by (simp add: api_eval_defs)
  ultimately show ?thesis by simp
qed

text \<open>
  An array of numbers under status 200 is returned as it is; a body of \<^verbatim>\<open>null\<close> raises a
  \<^verbatim>\<open>TypeError\<close>, not an \<^verbatim>\<open>APIError\<close>.
\<close>

theorem uuidList_null_body_counterexample:
  "fst (uuidList (answering \<lparr>status = 200, resp_json = Some JNull\<rparr>) ''VsInfo'' example_state)
     = Inl (TypeError ''Cannot read properties of null (reading message)'')
   \<and> fst (uuidList (answering \<lparr>status = 200, resp_json = Some (JArr [JNum 1])\<rparr>) ''VsInfo''
            example_state) = Inr [JNum 1]"
  by (simp add: api_eval_defs)

subsection \<open>Posting a body\<close>

lemma post_outcome:
  "json_or_empty (server env (requests s) (POST u b)) \<noteq> JNull
   \<or> (status (server env (requests s) (POST u b)) \<noteq> 200
      \<and> status (server env (requests s) (POST u b)) \<noteq> 201) \<Longrightarrow>
   post_contract (server env (requests s) (POST u b)) (fst (post env u b s))"
  by (auto simp: post_contract_def post_def io_bind_def fetch_apply Let_def io_of_def get_prop_def
      split: sum.splits)

lemma post_Inr:
  "post env u b s = (Inr j, s') \<Longrightarrow> post_contract (server env (requests s) (POST u b)) (Inr j)"
  by (auto simp: post_contract_def post_def io_bind_def fetch_apply Let_def io_of_def get_prop_def
      split: sum.splits if_splits)

lemma post_state: "snd (post env u b s) = s\<lparr>requests := requests s @ [POST u b]\<rparr>"
  by (simp add: post_def io_bind_def fetch_apply Let_def io_of_def get_prop_def
      split: sum.splits)

lemma exportGame_Inr:
  assumes "exportGame env ext game s = (Inr r, s')"
  shows "\<exists>s1 u b json. requests s' = requests s1 @ [POST u b]
            \<and> post env u b s1 = (Inr json, s')
            \<and> r = \<lparr>er_status = ''success'', er_url = own_prop json ''url''\<rparr>"
proof (cases game)
  case (VsInfo g)
  with assms obtain body s1 json where
    "mapBattle env ext g s = (Inr body, s1)" and p: "postBattle env body s1 = (Inr json, s')"
    and r: "io_bind (io_of (get_prop json ''url''))
              (\<lambda>url. io_return \<lparr>er_status = ''success'', er_url = url\<rparr>) s' = (Inr r, s')"
    by (auto simp: exportGame_def io_bind_Inr io_of_Inr)
  have "requests s' = requests s1 @ [POST (statInk @ ''/api/v3/battle'') (BattleBody body)]"
    using post_state[of env "statInk @ ''/api/v3/battle''" "BattleBody body" s1] p
    by (simp add: postBattle_def)
  moreover from r have "r = \<lparr>er_status = ''success'', er_url = own_prop json ''url''\<rparr>"
    by (auto simp: io_bind_Inr io_of_Inr get_prop_def split: if_splits)
  ultimately show ?thesis using p unfolding postBattle_def by blast
next
  case (CoopInfo g)
  with assms obtain body s1 json where
    "mapCoop env ext g s = (Inr body, s1)" and p: "postCoop env body s1 = (Inr json, s')"
    and r: "io_bind (io_of (get_prop json ''url''))
              (\<lambda>url. io_return \<lparr>er_status = ''success'', er_url = url\<rparr>) s' = (Inr r, s')"
    by (auto simp: exportGame_def io_bind_Inr io_of_Inr)
  have "requests s' = requests s1 @ [POST (statInk @ ''/api/v3/salmon'') (CoopBody body)]"
    using post_state[of env "statInk @ ''/api/v3/salmon''" "CoopBody body" s1] p
    by (simp add: postCoop_def)
  moreover from r have "r = \<lparr>er_status = ''success'', er_url = own_prop json ''url''\<rparr>"
    by (auto simp: io_bind_Inr io_of_Inr get_prop_def split: if_splits)
  ultimately show ?thesis using p unfolding postCoop_def by blast
qed

text \<open>
  Claim C7, as the code has it. Unless the status is 200 or 201 and the parsed body is
  \<^verbatim>\<open>null\<close> (a body that is not JSON counts as \<^verbatim>\<open>{}\<close>), \<^verbatim>\<open>postBattle\<close> and \<^verbatim>\<open>postCoop\<close> keep
  \<^const>\<open>post_contract\<close>: they return the parsed body exactly when the status is 200 or
  201 and the \<^verbatim>\<open>error\<close> property of the body is missing or falsy; a wrong status or a
  truthy \<^verbatim>\<open>error\<close> raises the \<^verbatim>\<open>APIError\<close> with the response and the parsed body. When
  \<^verbatim>\<open>exportGame\<close> returns, its last request is the POST, and the url it reports is the
  \<^verbatim>\<open>url\<close> property of the body of that response.
\<close>

theorem post_succeeds_exactly:
  "(json_or_empty (server env (requests s) (POST (statInk @ ''/api/v3/battle'') (BattleBody body)))
      \<noteq> JNull
    \<or> (status (server env (requests s) (POST (statInk @ ''/api/v3/battle'') (BattleBody body)))
          \<noteq> 200
       \<and> status (server env (requests s) (POST (statInk @ ''/api/v3/battle'') (BattleBody body)))
          \<noteq> 201) \<longrightarrow>
    post_contract (server env (requests s) (POST (statInk @ ''/api/v3/battle'') (BattleBody body)))
      (fst (postBattle env body s)))
   \<and> (json_or_empty (server env (requests s) (POST (statInk @ ''/api/v3/salmon'') (CoopBody cbody)))
        \<noteq> JNull
      \<or> (status (server env (requests s) (POST (statInk @ ''/api/v3/salmon'') (CoopBody cbody)))
            \<noteq> 200
         \<and> status (server env (requests s) (POST (statInk @ ''/api/v3/salmon'') (CoopBody cbody)))
            \<noteq> 201) \<longrightarrow>
      post_contract (server env (requests s) (POST (statInk @ ''/api/v3/salmon'') (CoopBody cbody)))
        (fst (postCoop env cbody s)))
   \<and> (\<forall>r s'. exportGame env ext game s = (Inr r, s') \<longrightarrow>
         (\<exists>log u b. requests s' = log @ [POST u b]
            \<and> post_contract (server env log (POST u b))
                 (Inr (json_or_empty (server env log (POST u b))))
            \<and> er_url r = own_prop (json_or_empty (server env log (POST u b))) ''url''))"
proof -
  have "\<exists>log u b. requests s' = log @ [POST u b]
            \<and> post_contract (server env log (POST u b))
                 (Inr (json_or_empty (server env log (POST u b))))
            \<and> er_url r = own_prop (json_or_empty (server env log (POST u b))) ''url''"
    if run: "exportGame env ext game s = (Inr r, s')" for r s'
  proof -
    from exportGame_Inr[OF run] obtain s1 u b json where
      log: "requests s' = requests s1 @ [POST u b]" and p: "post env u b s1 = (Inr json, s')"
      and r: "r = \<lparr>er_status = ''success'', er_url = own_prop json ''url''\<rparr>"
      by blast
    from post_Inr[OF p]
    have c: "post_contract (server env (requests s1) (POST u b)) (Inr json)" .
    then have "json = json_or_empty (server env (requests s1) (POST u b))"
      by (simp add: post_contract_def Let_def)
    with c log r show ?thesis by auto
  qed
  then show ?thesis
    using post_outcome[of env s "statInk @ ''/api/v3/battle''" "BattleBody body"]
      post_outcome[of env s "statInk @ ''/api/v3/salmon''" "CoopBody cbody"]
    by (simp add: postBattle_def postCoop_def)
qed

theorem post_succeeds_exactly_witness:
  "fst (postCoop (answering \<lparr>status = 201, resp_json = Some (JObj [(''url'', JStr ''https://stat.ink/1'')])\<rparr>)
          example_coop_body example_state) = Inr (JObj [(''url'', JStr ''https://stat.ink/1'')])
   \<and> fst (postCoop (answering \<lparr>status = 500, resp_json = None\<rparr>) example_coop_body example_state)
       = Inl (APIError \<lparr>status = 500, resp_json = None\<rparr> (Some (JObj []))
                (Some (JStr ''Failed to export battle'')))
   \<and> fst (postCoop (answering \<lparr>status = 200, resp_json = Some (JObj [(''error'', JStr ''bad'')])\<rparr>)
          example_coop_body example_state)
       = Inl (APIError \<lparr>status = 200, resp_json = Some (JObj [(''error'', JStr ''bad'')])\<rparr>
                (Some (JObj [(''error'', JStr ''bad'')])) (Some (JStr ''Failed to export battle'')))
   \<and> map_sum id er_url
        (fst (exportGame (answering \<lparr>status = 201, resp_json = Some (JObj [(''url'', JStr ''https://stat.ink/1'')])\<rparr>)
           example_ext (CoopInfo (example_coop ''REGULAR'' 0 [example_wave 1 10 12] [])) example_state))
       = Inr (Some (JStr ''https://stat.ink/1''))"
proof -
  let ?ok = "\<lparr>status = 201, resp_json = Some (JObj [(''url'', JStr ''https://stat.ink/1'')])\<rparr>"
  let ?down = "\<lparr>status = 500, resp_json = None\<rparr>"
  let ?bad = "\<lparr>status = 200, resp_json = Some (JObj [(''error'', JStr ''bad'')])\<rparr>"
  let ?game = "CoopInfo (example_coop ''REGULAR'' 0 [example_wave 1 10 12] [])"
  have a: "fst (postCoop (answering ?ok) example_coop_body example_state)
             = Inr (JObj [(''url'', JStr ''https://stat.ink/1'')])"
    using post_succeeds_exactly[where env = "answering ?ok" and s = example_state
        and cbody = example_coop_body, THEN conjunct2, THEN conjunct1]
    by (simp add: post_contract_def answering_def json_or_empty_def Let_def split: sum.splits)
  have b: "fst (postCoop (answering ?down) example_coop_body example_state)
             = Inl (APIError ?down (Some (JObj [])) (Some (JStr ''Failed to export battle'')))"
    using post_succeeds_exactly[where env = "answering ?down" and s = example_state
        and cbody = example_coop_body, THEN conjunct2, THEN conjunct1]
    by (simp add: post_contract_def answering_def json_or_empty_def Let_def split: sum.splits)
  have c: "fst (postCoop (answering ?bad) example_coop_body example_state)
             = Inl (APIError ?bad (Some (JObj [(''error'', JStr ''bad'')]))
                      (Some (JStr ''Failed to export battle'')))"
    using post_succeeds_exactly[where env = "answering ?bad" and s = example_state
        and cbody = example_coop_body, THEN conjunct2, THEN conjunct1]
    by (simp add: post_contract_def answering_def json_or_empty_def Let_def split: sum.splits)
  obtain r s' where run: "exportGame (answering ?ok) example_ext ?game example_state = (Inr r, s')"
    by (simp add: exportGame_def eval_defs api_eval_defs)
  with post_succeeds_exactly[where env = "answering ?ok" and s = example_state
        and ext = example_ext and game = ?game, THEN conjunct2, THEN conjunct2]
  have "er_url r = Some (JStr ''https://stat.ink/1'')"
    by (auto simp: answering_def json_or_empty_def)
  with a b c run show ?thesis by simp
qed

text \<open>
  A response with status 200 whose body has the property \<^verbatim>\<open>error: null\<close> is a success,
  and a \<^verbatim>\<open>null\<close> body raises a \<^verbatim>\<open>TypeError\<close>, not an \<^verbatim>\<open>APIError\<close>.
\<close>

theorem post_falsy_error_counterexample:
  "fst (postCoop (answering \<lparr>status = 200,
                              resp_json = Some (JObj [(''error'', JNull),
                                                      (''url'', JStr ''https://stat.ink/1'')])\<rparr>)
          example_coop_body example_state)
     = Inr (JObj [(''error'', JNull), (''url'', JStr ''https://stat.ink/1'')])
   \<and> fst (postCoop (answering \<lparr>status = 200, resp_json = Some JNull\<rparr>) example_coop_body
            example_state)
       = Inl (TypeError ''Cannot read properties of null (reading error)'')"
  by (simp add: api_eval_defs)

subsection \<open>The map of Salmon Run weapon names\<close>

lemma getCached_fields:
  "salmonWeaponMap (snd (getCached env url s)) = salmonWeaponMap s
   \<and> console (snd (getCached env url s)) = console s
   \<and> filter is_POST (requests (snd (getCached env url s))) = filter is_POST (requests s)"
  by (simp add: getCached_def fetchCached_def io_bind_def fetch_apply checkResponse_def
      await_json_def split: option.splits)

lemma getCatalog_fields:
  "salmonWeaponMap (snd (getCatalog env url s)) = salmonWeaponMap s
   \<and> console (snd (getCatalog env url s)) = console s
   \<and> filter is_POST (requests (snd (getCatalog env url s))) = filter is_POST (requests s)"
  using getCached_fields[of env url s]
  by (auto simp: getCatalog_def io_bind_def io_of_def split: prod.splits sum.splits)

lemma setWeaponName_map:
  "map_of (salmonWeaponMap (setWeaponName k s n)) = (map_of (salmonWeaponMap s))(n \<mapsto> k)"
  by (simp add: setWeaponName_def Let_def update_conv')

lemma setWeaponName_console:
  "console (setWeaponName k s n)
     = console s @ (if map_of (salmonWeaponMap s) n \<noteq> None \<and> map_of (salmonWeaponMap s) n \<noteq> Some k
                    then [''Duplicate weapon name: '' @ n] else [])"
  by (simp add: setWeaponName_def Let_def)

lemma names_fold_map:
  "map_of (salmonWeaponMap (foldl (setWeaponName k) s ns)) name
     = (if name \<in> set ns then Some k else map_of (salmonWeaponMap s) name)"
  by (induction ns arbitrary: s) (auto simp: setWeaponName_map)

lemma names_fold_console_mono:
  "set (console s) \<subseteq> set (console (foldl (setWeaponName k) s ns))"
proof (induction ns arbitrary: s)
  case Nil
  then show ?case by simp
next
  case (Cons n ns)
  have "set (console s) \<subseteq> set (console (setWeaponName k s n))"
    by (simp add: setWeaponName_console)
  with Cons[of "setWeaponName k s n"] show ?case by auto
qed

lemma names_fold_warns:
  "map_of (salmonWeaponMap s) name = Some k0 \<Longrightarrow> k0 \<noteq> k \<Longrightarrow> name \<in> set ns \<Longrightarrow>
   ''Duplicate weapon name: '' @ name \<in> set (console (foldl (setWeaponName k) s ns))"
proof (induction ns arbitrary: s)
  case Nil
  then show ?case by simp
next
  case (Cons n ns)
  show ?case
  proof (cases "n = name")
    case True
    with Cons.prems have "''Duplicate weapon name: '' @ name \<in> set (console (setWeaponName k s n))"
      by (simp add: setWeaponName_console)
    with names_fold_console_mono[of "setWeaponName k s n" k ns] show ?thesis by auto
  next
    case False
    with Cons.prems have "map_of (salmonWeaponMap (setWeaponName k s n)) name = Some k0"
      "name \<in> set ns" by (simp_all add: setWeaponName_map)
    from Cons.IH[OF this(1) Cons.prems(2) this(2)] show ?thesis by simp
  qed
qed

lemma addWeapon_map:
  "map_of (salmonWeaponMap (addWeapon s w)) name
     = (if name \<in> set (weapon_names w) then Some (entry_key w)
        else map_of (salmonWeaponMap s) name)"
  by (simp add: addWeapon_def names_fold_map)

lemma weapons_fold_console_mono:
  "set (console s) \<subseteq> set (console (foldl addWeapon s ws))"
proof (induction ws arbitrary: s)
  case Nil
  then show ?case by simp
next
  case (Cons w ws)
  have "set (console s) \<subseteq> set (console (addWeapon s w))"
    by (simp add: addWeapon_def names_fold_console_mono)
  with Cons[of "addWeapon s w"] show ?case by auto
qed

lemma weapons_fold_map:
  "map_of (salmonWeaponMap (foldl addWeapon s ws)) name
     = (if filter (\<lambda>w. name \<in> set (weapon_names w)) ws = []
        then map_of (salmonWeaponMap s) name
        else Some (entry_key (last (filter (\<lambda>w. name \<in> set (weapon_names w)) ws))))"
proof (induction ws rule: rev_induct)
  case Nil
  then show ?case by simp
next
  case (snoc w ws)
  show ?case
  proof (cases "name \<in> set (weapon_names w)")
    case True
    then show ?thesis by (simp add: addWeapon_map)
  next
    case False
    then show ?thesis using snoc by (simp add: addWeapon_map)
  qed
qed

lemma weapons_fold_warns_prev:
  "map_of (salmonWeaponMap s) name = Some k0 \<Longrightarrow>
   \<exists>w \<in> set ws. name \<in> set (weapon_names w) \<and> entry_key w \<noteq> k0 \<Longrightarrow>
   ''Duplicate weapon name: '' @ name \<in> set (console (foldl addWeapon s ws))"
proof (induction ws arbitrary: s)
  case Nil
  then show ?case by simp
next
  case (Cons w ws)
  show ?case
  proof (cases "name \<in> set (weapon_names w) \<and> entry_key w \<noteq> k0")
    case True
    with Cons.prems(1) have "''Duplicate weapon name: '' @ name \<in> set (console (addWeapon s w))"
      unfolding addWeapon_def by (intro names_fold_warns[of s name k0]) auto
    with weapons_fold_console_mono[of "addWeapon s w" ws] show ?thesis by auto
  next
    case False
    with Cons.prems have m: "map_of (salmonWeaponMap (addWeapon s w)) name = Some k0"
      by (auto simp: addWeapon_map)
    from False Cons.prems(2)
    have "\<exists>w' \<in> set ws. name \<in> set (weapon_names w') \<and> entry_key w' \<noteq> k0" by auto
    from Cons.IH[OF m this] show ?thesis by simp
  qed
qed

lemma weapons_fold_warns:
  "\<exists>w1 \<in> set ws. \<exists>w2 \<in> set ws. name \<in> set (weapon_names w1) \<and> name \<in> set (weapon_names w2)
      \<and> entry_key w1 \<noteq> entry_key w2 \<Longrightarrow>
   ''Duplicate weapon name: '' @ name \<in> set (console (foldl addWeapon s ws))"
proof (induction ws arbitrary: s)
  case Nil
  then show ?case by simp
next
  case (Cons w ws)
  show ?case
  proof (cases "name \<in> set (weapon_names w)")
    case True
    then have m: "map_of (salmonWeaponMap (addWeapon s w)) name = Some (entry_key w)"
      by (simp add: addWeapon_map)
    from Cons.prems obtain w' where "w' \<in> set (w # ws)" "name \<in> set (weapon_names w')"
      "entry_key w' \<noteq> entry_key w" by metis
    then have "\<exists>w' \<in> set ws. name \<in> set (weapon_names w') \<and> entry_key w' \<noteq> entry_key w"
      by auto
    from weapons_fold_warns_prev[OF m this] show ?thesis by simp
  next
    case False
    with Cons.prems
    have "\<exists>w1 \<in> set ws. \<exists>w2 \<in> set ws. name \<in> set (weapon_names w1)
            \<and> name \<in> set (weapon_names w2) \<and> entry_key w1 \<noteq> entry_key w2"
      by auto
    from Cons.IH[OF this] show ?thesis by simp
  qed
qed

lemma getSalmonWeaponMap_fresh:
  assumes "salmonWeaponMap s = []" and "getSalmonWeapon env s = (Inr fetched, s1)"
  shows "snd (getSalmonWeaponMap env s) = foldl addWeapon s1 fetched"
    and "fst (getSalmonWeaponMap env s)
           = (if salmonWeaponMap (foldl addWeapon s1 fetched) = []
              then Inl (Error ''Failed to get salmon weapon map'')
              else Inr (salmonWeaponMap (foldl addWeapon s1 fetched)))"
    and "salmonWeaponMap s1 = []"
proof -
  show "snd (getSalmonWeaponMap env s) = foldl addWeapon s1 fetched"
    using assms by (simp add: getSalmonWeaponMap_def io_bind_def Let_def)
  show "fst (getSalmonWeaponMap env s)
           = (if salmonWeaponMap (foldl addWeapon s1 fetched) = []
              then Inl (Error ''Failed to get salmon weapon map'')
              else Inr (salmonWeaponMap (foldl addWeapon s1 fetched)))"
    using assms by (simp add: getSalmonWeaponMap_def io_bind_def Let_def)
  have "s1 = snd (getCatalog env (statInk @ ''/api/v3/salmon/weapon?full=1'') s)"
    using assms(2) by (simp add: getSalmonWeapon_def)
  then show "salmonWeaponMap s1 = []"
    using getCatalog_fields[of env "statInk @ ''/api/v3/salmon/weapon?full=1''" s] assms(1)
    by simp
qed

text \<open>
  Claim C4, as the code has it. Starting from an empty map, with the weapons that
  \<^verbatim>\<open>getSalmonWeapon\<close> fetched: the map holds for each name the key of the last weapon,
  in fetch order, that has the name (and nothing for a name no weapon has); when two
  weapons with different keys have the name, the warning for it has been written; and
  the map returned is the map stored.
\<close>

theorem getSalmonWeaponMap_last_writer:
  assumes "salmonWeaponMap s = []" and "getSalmonWeapon env s = (Inr fetched, s1)"
  shows "map_of (salmonWeaponMap (snd (getSalmonWeaponMap env s))) name
           = (if filter (\<lambda>w. name \<in> set (weapon_names w)) fetched = [] then None
              else Some (entry_key (last (filter (\<lambda>w. name \<in> set (weapon_names w)) fetched))))
       \<and> ((\<exists>w1 \<in> set fetched. \<exists>w2 \<in> set fetched.
              name \<in> set (weapon_names w1) \<and> name \<in> set (weapon_names w2)
              \<and> entry_key w1 \<noteq> entry_key w2)
            \<longrightarrow> ''Duplicate weapon name: '' @ name
                  \<in> set (console (snd (getSalmonWeaponMap env s))))
       \<and> (\<forall>m. fst (getSalmonWeaponMap env s) = Inr m
              \<longrightarrow> m = salmonWeaponMap (snd (getSalmonWeaponMap env s)))"
proof -
  note fresh = getSalmonWeaponMap_fresh[OF assms]
  have a: "map_of (salmonWeaponMap (snd (getSalmonWeaponMap env s))) name
           = (if filter (\<lambda>w. name \<in> set (weapon_names w)) fetched = [] then None
              else Some (entry_key (last (filter (\<lambda>w. name \<in> set (weapon_names w)) fetched))))"
    unfolding fresh(1) weapons_fold_map by (simp add: fresh(3))
  have b: "(\<exists>w1 \<in> set fetched. \<exists>w2 \<in> set fetched.
              name \<in> set (weapon_names w1) \<and> name \<in> set (weapon_names w2)
              \<and> entry_key w1 \<noteq> entry_key w2)
            \<longrightarrow> ''Duplicate weapon name: '' @ name
                  \<in> set (console (snd (getSalmonWeaponMap env s)))"
    unfolding fresh(1) using weapons_fold_warns[of fetched name s1] by blast
  have c: "\<forall>m. fst (getSalmonWeaponMap env s) = Inr m
              \<longrightarrow> m = salmonWeaponMap (snd (getSalmonWeaponMap env s))"
    unfolding fresh(1) fresh(2) by (simp split: if_splits)
  show ?thesis using a b c by blast
qed

theorem getSalmonWeaponMap_last_writer_witness:
  "salmonWeaponMap example_state = []
   \<and> fst (getSalmonWeapon (answering \<lparr>status = 200, resp_json = Some example_weapons\<rparr>) example_state)
       = Inr [example_entry ''wakaba'' ''Splattershot Jr.'' ''shooter'' ''10'',
              example_entry ''sshooter'' ''Splattershot'' ''shooter'' ''40'']
   \<and> map_of (salmonWeaponMap (snd (getSalmonWeaponMap
               (answering \<lparr>status = 200, resp_json = Some example_weapons\<rparr>) example_state)))
        ''shooter'' = Some ''sshooter''
   \<and> ''Duplicate weapon name: shooter''
       \<in> set (console (snd (getSalmonWeaponMap
               (answering \<lparr>status = 200, resp_json = Some example_weapons\<rparr>) example_state)))"
proof -
  let ?env = "answering \<lparr>status = 200, resp_json = Some example_weapons\<rparr>"
  let ?a = "example_entry ''wakaba'' ''Splattershot Jr.'' ''shooter'' ''10''"
  let ?b = "example_entry ''sshooter'' ''Splattershot'' ''shooter'' ''40''"
  have empty: "salmonWeaponMap example_state = []"
    by (simp add: example_state_def)
  have fetched: "fst (getSalmonWeapon ?env example_state) = Inr [?a, ?b]"
    by code_simp
  then have run: "getSalmonWeapon ?env example_state
                    = (Inr [?a, ?b], snd (getSalmonWeapon ?env example_state))"
    by (metis prod.collapse)
  have names: "weapon_names ?a = [''Splattershot Jr.'', ''shooter'']"
    "weapon_names ?b = [''Splattershot'', ''shooter'']"
    by code_simp+
  have keys: "entry_key ?a = ''wakaba''" "entry_key ?b = ''sshooter''"
    by (simp_all add: example_entry_def)
  from getSalmonWeaponMap_last_writer[OF empty run, of "''shooter''"]
  show ?thesis using empty fetched by (simp add: names keys)
qed


text \<open>
  Two weapons share the name \<^verbatim>\<open>shooter\<close>: the warning is written and the map holds the
  key of the second, not of the first.
\<close>

theorem salmon_weapon_first_writer_counterexample:
  "fst (getSalmonWeaponMap (answering \<lparr>status = 200, resp_json = Some example_weapons\<rparr>) example_state)
     = Inr [(''Splattershot Jr.'', ''wakaba''), (''shooter'', ''sshooter''), (''Splattershot'', ''sshooter'')]
   \<and> console (snd (getSalmonWeaponMap (answering \<lparr>status = 200, resp_json = Some example_weapons\<rparr>)
                      example_state))
       = [''Duplicate weapon name: shooter'']"
  by code_simp

subsection \<open>A stage the catalog does not know\<close>

lemma getStage_POSTs:
  "filter is_POST (requests (snd (getStage env s))) = filter is_POST (requests s)"
  by (simp add: getStage_def getCatalog_fields)

lemma mapStage_unknown:
  assumes "getStage env s = (Inr stage, s1)"
    and "\<forall>e \<in> set stage. toString (b64Number ext (vsStage_id d)) \<notin> set (aliases e)"
  shows "mapStage env ext d s = (Inl (Error (''Unknown stage: '' @ vsStage_name d)), s1)"
proof -
  have "find (\<lambda>e. toString (b64Number ext (vsStage_id d)) \<in> set (aliases e)) stage = None"
    using assms(2) by (simp add: find_None_iff)
  then show ?thesis using assms(1) by (simp add: mapStage_def Let_def io_bind_def)
qed

lemma mapBattle_unknown_stage:
  assumes "getStage env s = (Inr stage, s1)"
    and "\<forall>e \<in> set stage. toString (b64Number ext (vsStage_id (vs_detail g))) \<notin> set (aliases e)"
  shows "mapBattle env ext g s =
           (if find isMyself (players (myTeam (vs_detail g))) = None
            then (Inl (Error ''Self not found''), s)
            else if otherTeams (vs_detail g) = []
            then (Inl (Error ''Other teams is empty''), s)
            else case mapLobby ext (vs_detail g) of
                   Inl e \<Rightarrow> (Inl e, s)
                 | Inr lobby \<Rightarrow>
                     (Inl (Error (''Unknown stage: '' @ vsStage_name (vs_detail g))), s1))"
  using mapStage_unknown[OF assms]
  by (simp add: mapBattle_def Let_def io_bind_def io_of_def split: option.splits list.splits sum.splits)

lemma exportGame_mapBattle_fails:
  "mapBattle env ext g s = (Inl e, s') \<Longrightarrow> exportGame env ext (VsInfo g) s = (Inl e, s')"
  by (simp add: exportGame_def io_bind_def)


lemma no_post_return: "no_post (io_return x)"
  by (simp add: no_post_def)

lemma no_post_raise: "no_post (io_raise e)"
  by (simp add: no_post_def)

lemma no_post_of: "no_post (io_of r)"
  by (cases r) (simp_all add: io_of_def no_post_return no_post_raise)

lemma no_post_bind: "no_post m \<Longrightarrow> (\<And>x. no_post (f x)) \<Longrightarrow> no_post (io_bind m f)"
  unfolding no_post_def io_bind_def
  by (auto split: prod.splits sum.splits) (metis snd_conv)+

lemma no_post_map: "(\<And>x. no_post (f x)) \<Longrightarrow> no_post (io_map f xs)"
  by (induction xs) (auto intro!: no_post_bind no_post_return)

lemma no_post_getCatalog: "no_post (getCatalog env url)"
  by (simp add: no_post_def getCatalog_fields)

lemma no_post_mapGears: "no_post (mapGears env p)"
  unfolding mapGears_def getAbility_def
  by (intro no_post_bind no_post_getCatalog no_post_of no_post_return)

lemma no_post_mapPlayers: "no_post (mapPlayers env ext ps)"
  unfolding mapPlayers_def
  by (intro no_post_map) (auto simp: mapPlayer_def Let_def intro!: no_post_bind no_post_mapGears no_post_return)

lemma no_post_mapStage: "no_post (mapStage env ext d)"
  unfolding mapStage_def Let_def getStage_def
  by (intro no_post_bind no_post_getCatalog) (auto split: option.splits intro: no_post_return no_post_raise)

lemma no_post_mapBattle: "no_post (mapBattle env ext g)"
  unfolding mapBattle_def Let_def
  by (auto split: option.splits list.splits
      intro!: no_post_bind no_post_raise no_post_return no_post_of no_post_mapStage no_post_mapPlayers)


text \<open>
  Claim C8, as the code has it. When the stage catalog has been fetched and no entry's
  aliases hold the decoded stage id of a versus session, \<^verbatim>\<open>exportGame\<close> raises and sends
  no POST. The error is the unknown stage when the steps before \<^verbatim>\<open>mapStage\<close> pass (the
  player is in the own team, there is another team, the lobby is known); otherwise it is
  the error of the first of those steps that fails. For every session, \<^verbatim>\<open>mapBattle\<close> sends
  no POST, and an error it raises is the outcome of \<^verbatim>\<open>exportGame\<close>.
\<close>

theorem exportGame_unknown_stage:
  assumes "getStage env s = (Inr stage, s1)"
    and "\<forall>e \<in> set stage. toString (b64Number ext (vsStage_id (vs_detail g))) \<notin> set (aliases e)"
  shows "(\<exists>e. fst (exportGame env ext (VsInfo g) s) = Inl e)
       \<and> filter is_POST (requests (snd (exportGame env ext (VsInfo g) s)))
           = filter is_POST (requests s)
       \<and> (find isMyself (players (myTeam (vs_detail g))) \<noteq> None
            \<and> otherTeams (vs_detail g) \<noteq> []
            \<and> (\<exists>lobby. mapLobby ext (vs_detail g) = Inr lobby)
          \<longrightarrow> fst (exportGame env ext (VsInfo g) s)
                = Inl (Error (''Unknown stage: '' @ vsStage_name (vs_detail g))))
       \<and> (find isMyself (players (myTeam (vs_detail g))) = None
          \<longrightarrow> fst (exportGame env ext (VsInfo g) s) = Inl (Error ''Self not found''))
       \<and> (find isMyself (players (myTeam (vs_detail g))) \<noteq> None
            \<and> otherTeams (vs_detail g) = []
          \<longrightarrow> fst (exportGame env ext (VsInfo g) s) = Inl (Error ''Other teams is empty''))
       \<and> (\<forall>e. find isMyself (players (myTeam (vs_detail g))) \<noteq> None
            \<and> otherTeams (vs_detail g) \<noteq> []
            \<and> mapLobby ext (vs_detail g) = Inl e
          \<longrightarrow> fst (exportGame env ext (VsInfo g) s) = Inl e)
       \<and> (\<forall>g'. no_post (mapBattle env ext g'))
       \<and> (\<forall>g' t e t'. mapBattle env ext g' t = (Inl e, t')
          \<longrightarrow> exportGame env ext (VsInfo g') t = (Inl e, t'))"
proof -
  let ?d = "vs_detail g"
  have posts: "filter is_POST (requests s1) = filter is_POST (requests s)"
    using getStage_POSTs[of env s] assms(1) by simp
  note mb = mapBattle_unknown_stage[OF assms]
  note general = no_post_mapBattle exportGame_mapBattle_fails
  consider (noself) "find isMyself (players (myTeam ?d)) = None"
    | (noteams) "find isMyself (players (myTeam ?d)) \<noteq> None" "otherTeams ?d = []"
    | (nolobby) e where "find isMyself (players (myTeam ?d)) \<noteq> None" "otherTeams ?d \<noteq> []"
        "mapLobby ext ?d = Inl e"
    | (nostage) lobby where "find isMyself (players (myTeam ?d)) \<noteq> None" "otherTeams ?d \<noteq> []"
        "mapLobby ext ?d = Inr lobby"
    by (cases "mapLobby ext ?d") blast+
  then show ?thesis
  proof cases
    case noself
    then have "mapBattle env ext g s = (Inl (Error ''Self not found''), s)"
      by (auto simp: mb)
    from exportGame_mapBattle_fails[OF this] noself general show ?thesis by simp
  next
    case noteams
    then have "mapBattle env ext g s = (Inl (Error ''Other teams is empty''), s)"
      by (auto simp: mb)
    from exportGame_mapBattle_fails[OF this] noteams general show ?thesis by auto
  next
    case nolobby
    then have "mapBattle env ext g s = (Inl e, s)"
      by (auto simp: mb)
    from exportGame_mapBattle_fails[OF this] nolobby general show ?thesis by auto
  next
    case nostage
    then have "mapBattle env ext g s
                 = (Inl (Error (''Unknown stage: '' @ vsStage_name ?d)), s1)"
      by (auto simp: mb)
    from exportGame_mapBattle_fails[OF this] nostage posts general show ?thesis by auto
  qed
qed

theorem exportGame_unknown_stage_witness:
  "fst (getStage (answering \<lparr>status = 200, resp_json = Some example_stages\<rparr>) example_state)
     = Inr [\<lparr>entry_key = ''yunohana'', entry_name = [(''en_US'', ''Scorch Gorge'')],
             aliases = [''1'', ''scorch_gorge'']\<rparr>]
   \<and> toString (b64Number example_ext (vsStage_id (vs_detail (example_vs True ''REGULAR'' ''99'')))) = ''99''
   \<and> fst (exportGame (answering \<lparr>status = 200, resp_json = Some example_stages\<rparr>) example_ext
            (VsInfo (example_vs True ''REGULAR'' ''99'')) example_state)
       = Inl (Error ''Unknown stage: Scorch Gorge'')
   \<and> filter is_POST (requests (snd (exportGame
            (answering \<lparr>status = 200, resp_json = Some example_stages\<rparr>) example_ext
            (VsInfo (example_vs True ''REGULAR'' ''99'')) example_state))) = []"
proof -
  let ?env = "answering \<lparr>status = 200, resp_json = Some example_stages\<rparr>"
  let ?cat = "[\<lparr>entry_key = ''yunohana'', entry_name = [(''en_US'', ''Scorch Gorge'')],
                aliases = [''1'', ''scorch_gorge'']\<rparr>]"
  let ?g = "example_vs True ''REGULAR'' ''99''"
  have fetched: "fst (getStage ?env example_state) = Inr ?cat"
    by code_simp
  then have run: "getStage ?env example_state = (Inr ?cat, snd (getStage ?env example_state))"
    by (metis prod.collapse)
  have sid: "toString (b64Number example_ext (vsStage_id (vs_detail ?g))) = ''99''"
    by code_simp
  have unknown: "\<forall>e \<in> set ?cat. toString (b64Number example_ext (vsStage_id (vs_detail ?g)))
                   \<notin> set (aliases e)"
    unfolding sid by simp
  have valid: "find isMyself (players (myTeam (vs_detail ?g))) \<noteq> None"
    "otherTeams (vs_detail ?g) \<noteq> []" "mapLobby example_ext (vs_detail ?g) = Inr ''regular''"
    "vsStage_name (vs_detail ?g) = ''Scorch Gorge''" "requests example_state = []"
    by (simp_all add: example_vs_def example_vs_player_def mapLobby_def example_state_def)
  from exportGame_unknown_stage[OF run unknown] valid fetched sid show ?thesis
    by simp
qed

text \<open>
  A session in a mode that \<^verbatim>\<open>mapLobby\<close> does not know, on a stage that the catalog does
  not know: the error is the one of the mode. Likewise without the player in the own
  team. \<^verbatim>\<open>mapStage\<close> alone would report the stage.
\<close>

theorem unknown_stage_after_unknown_mode_counterexample:
  "fst (exportGame (answering \<lparr>status = 200, resp_json = Some example_stages\<rparr>) example_ext
          (VsInfo (example_vs True ''LEAGUE'' ''99'')) example_state)
     = Inl (TypeError ''Unknown vsMode LEAGUE'')
   \<and> fst (exportGame (answering \<lparr>status = 200, resp_json = Some example_stages\<rparr>) example_ext
            (VsInfo (example_vs False ''REGULAR'' ''99'')) example_state)
       = Inl (Error ''Self not found'')
   \<and> fst (mapStage (answering \<lparr>status = 200, resp_json = Some example_stages\<rparr>) example_ext
            (vs_detail (example_vs True ''LEAGUE'' ''99'')) example_state)
       = Inl (Error ''Unknown stage: Scorch Gorge'')"
  by code_simp

end
